theory Spec2Isabelle
  imports Main "HOL-Library.Multiset"
begin

section \<open>Strings and characters\<close>

text \<open>
  A Python \<open>str\<close> is modelled as a HOL \<open>string\<close>: a list of characters, each one a code
  point in the range U+0000..U+00FF. The character tests below are the ones Python applies
  to code points of that range.
\<close>

definition cp :: "char \<Rightarrow> nat" where
  "cp c = of_char c"

text \<open>\<open>str.lower\<close> and \<open>str.upper\<close> on one code point (simple case mapping).\<close>

definition uni_lower :: "nat \<Rightarrow> nat" where
  "uni_lower n =
     (if (65 \<le> n \<and> n \<le> 90) \<or> (192 \<le> n \<and> n \<le> 222 \<and> n \<noteq> 215) then n + 32 else n)"

definition uni_upper :: "nat \<Rightarrow> nat" where
  "uni_upper n =
     (if (97 \<le> n \<and> n \<le> 122) \<or> (224 \<le> n \<and> n \<le> 254 \<and> n \<noteq> 247) then n - 32
      else if n = 255 then 376
      else if n = 181 then 924
      else n)"

text \<open>\<open>str.isspace\<close>, which is also what \<open>\s\<close> matches in a Unicode pattern.\<close>

definition is_space :: "nat \<Rightarrow> bool" where
  "is_space n = ((9 \<le> n \<and> n \<le> 13) \<or> (28 \<le> n \<and> n \<le> 32) \<or> n = 133 \<or> n = 160)"

text \<open>\<open>\d\<close>: the decimal digits (category Nd) below U+0100 are \<open>0\<close>..\<open>9\<close>.\<close>

definition is_digit :: "nat \<Rightarrow> bool" where
  "is_digit n = (48 \<le> n \<and> n \<le> 57)"

section \<open>Regular expressions of \<open>re.match\<close> with \<open>re.IGNORECASE | re.UNICODE\<close>\<close>

datatype citem =
    Lit char            \<comment> \<open>one character, possibly escaped: \<open>\.\<close>, \<open>/\<close>, \<open>:\<close>\<close>
  | Rng char char       \<comment> \<open>a range \<open>a-z\<close>\<close>
  | ClsDigit            \<comment> \<open>\<open>\d\<close>\<close>
  | ClsSpace            \<comment> \<open>\<open>\s\<close>\<close>

datatype regex =
    Eps
  | Bol                   \<comment> \<open>\<open>^\<close>\<close>
  | Eol                   \<comment> \<open>\<open>$\<close>\<close>
  | AnyCh                 \<comment> \<open>\<open>.\<close>\<close>
  | Cls "citem list"      \<comment> \<open>\<open>[...]\<close>, or one literal or class escape\<close>
  | Cat regex regex
  | Alt regex regex       \<comment> \<open>\<open>r|s\<close>\<close>
  | Star regex            \<comment> \<open>\<open>r*\<close>\<close>
  | Plus regex            \<comment> \<open>\<open>r+\<close>\<close>
  | Rep nat nat regex     \<comment> \<open>\<open>r{m,n}\<close>\<close>

fun seq :: "regex list \<Rightarrow> regex" where
  "seq [] = Eps"
| "seq [r] = r"
| "seq (r # rs) = Cat r (seq rs)"

text \<open>
  Case-insensitive membership of a character in a class item: the character is lowered,
  and the lowered character or its upper-case form must be in the item.
\<close>

fun in_item :: "citem \<Rightarrow> char \<Rightarrow> bool" where
  "in_item (Lit x) c = (uni_lower (cp c) = uni_lower (cp x))"
| "in_item (Rng a b) c =
     (let l = uni_lower (cp c) in
      (cp a \<le> l \<and> l \<le> cp b) \<or> (cp a \<le> uni_upper l \<and> uni_upper l \<le> cp b))"
| "in_item ClsDigit c = is_digit (cp c)"
| "in_item ClsSpace c = is_space (cp c)"

definition in_cls :: "citem list \<Rightarrow> char \<Rightarrow> bool" where
  "in_cls items c = list_ex (\<lambda>i. in_item i c) items"

text \<open>
  A matcher position is the number of characters consumed and the rest of the subject.
  \<open>step r p\<close> lists the positions at which some match of \<open>r\<close> started at \<open>p\<close> can end.
  Only whether a match exists matters to \<open>targetType\<close>, so the order in which Python's
  backtracking would find the matches is not modelled.
\<close>

type_synonym pos = "nat \<times> string"

fun star_iter :: "nat \<Rightarrow> (pos \<Rightarrow> pos list) \<Rightarrow> pos list \<Rightarrow> pos list" where
  "star_iter _ f [] = []"
| "star_iter 0 f ps = ps"
| "star_iter (Suc k) f ps = ps @ star_iter k f (remdups (concat (map f ps)))"

fun rep_iter :: "nat \<Rightarrow> nat \<Rightarrow> (pos \<Rightarrow> pos list) \<Rightarrow> pos list \<Rightarrow> pos list" where
  "rep_iter _ _ f [] = []"
| "rep_iter 0 0 f ps = ps"
| "rep_iter 0 (Suc n) f ps = ps @ rep_iter 0 n f (remdups (concat (map f ps)))"
| "rep_iter (Suc m) n f ps = rep_iter m (n - 1) f (remdups (concat (map f ps)))"

primrec step :: "regex \<Rightarrow> pos \<Rightarrow> pos list" where
  "step Eps = (\<lambda>p. [p])"
| "step Bol = (\<lambda>p. if fst p = 0 then [p] else [])"
| "step Eol = (\<lambda>p. if snd p = [] \<or> snd p = [CHR 0x0A] then [p] else [])"
| "step AnyCh = (\<lambda>p. case snd p of [] \<Rightarrow> []
                     | c # cs \<Rightarrow> if c \<noteq> CHR 0x0A then [(Suc (fst p), cs)] else [])"
| "step (Cls items) = (\<lambda>p. case snd p of [] \<Rightarrow> []
                     | c # cs \<Rightarrow> if in_cls items c then [(Suc (fst p), cs)] else [])"
| "step (Cat r s) = (\<lambda>p. remdups (concat (map (step s) (step r p))))"
| "step (Alt r s) = (\<lambda>p. remdups (step r p @ step s p))"
| "step (Star r) = (\<lambda>p. remdups (star_iter (length (snd p)) (step r) [p]))"
| "step (Plus r) = (\<lambda>p. remdups (star_iter (length (snd p)) (step r) (remdups (step r p))))"
| "step (Rep m n r) = (\<lambda>p. remdups (rep_iter m n (step r) [p]))"

text \<open>\<open>re.match(rx, target, re.IGNORECASE | re.UNICODE)\<close> as a truth value.\<close>

definition re_match :: "regex \<Rightarrow> string \<Rightarrow> bool" where
  "re_match rx target = (step rx (0, target) \<noteq> [])"

section \<open>\<open>SpiderFoot.targetType\<close> (sflib.py)\<close>

definition digit :: regex where
  "digit = Cls [Rng CHR ''0'' CHR ''9'']"

definition dot :: regex where
  "dot = Cls [Lit CHR ''.'']"

definition alnum :: regex where
  "alnum = Cls [Rng CHR ''a'' CHR ''z'', Rng CHR ''0'' CHR ''9'']"

text \<open>\<open>([a-z0-9]|[a-z0-9][a-z0-9\-]*[a-z0-9])\<close>\<close>

definition label :: regex where
  "label = Alt alnum
     (seq [alnum,
           Star (Cls [Rng CHR ''a'' CHR ''z'', Rng CHR ''0'' CHR ''9'', Lit CHR ''-'']),
           alnum])"

definition quote :: regex where
  "quote = Cls [Lit CHR 0x22]"

definition rx_ip_address :: regex where
  "rx_ip_address =
     seq [Bol, Rep 1 3 digit, dot, Rep 1 3 digit, dot, Rep 1 3 digit, dot, Rep 1 3 digit, Eol]"

definition rx_netblock_owner :: regex where
  "rx_netblock_owner =
     seq [Bol, Rep 1 3 digit, dot, Rep 1 3 digit, dot, Rep 1 3 digit, dot, Rep 1 3 digit,
          Cls [Lit CHR ''/''], Plus (Cls [ClsDigit]), Eol]"

definition rx_emailaddr :: regex where
  "rx_emailaddr = seq [Bol, Star AnyCh, Cls [Lit CHR ''@''], Star AnyCh, Eol]"

definition rx_phone_number :: regex where
  "rx_phone_number = seq [Bol, Cls [Lit CHR ''+''], Plus digit, Eol]"

definition rx_human_name :: regex where
  "rx_human_name = seq [Bol, quote, Plus AnyCh, Plus (Cls [ClsSpace]), Plus AnyCh, quote, Eol]"

definition rx_username :: regex where
  "rx_username = seq [Bol, quote, Plus AnyCh, quote, Eol]"

definition rx_bgp_as_owner :: regex where
  "rx_bgp_as_owner = seq [Bol, Plus digit, Eol]"

definition rx_ipv6_address :: regex where
  "rx_ipv6_address =
     seq [Bol, Plus (Cls [Rng CHR ''0'' CHR ''9'', Rng CHR ''a'' CHR ''f'', Lit CHR '':'']), Eol]"

definition rx_internet_name :: regex where
  "rx_internet_name = seq [Bol, Plus (Cat label dot), label, Eol]"

definition rx_bitcoin_address :: regex where
  "rx_bitcoin_address =
     seq [Bol,
          Cls [Lit CHR ''1'', Lit CHR ''3''],
          Rep 25 34 (Cls [Rng CHR ''a'' CHR ''k'', Rng CHR ''m'' CHR ''z'',
                          Rng CHR ''A'' CHR ''H'', Rng CHR ''J'' CHR ''N'',
                          Rng CHR ''P'' CHR ''Z'', Rng CHR ''1'' CHR ''9'']),
          Eol]"

text \<open>The list \<open>regexToType\<close>, in the order of the source ("the regex order is important").\<close>

definition regexToType :: "(regex \<times> string) list" where
  "regexToType =
     [(rx_ip_address, ''IP_ADDRESS''),
      (rx_netblock_owner, ''NETBLOCK_OWNER''),
      (rx_emailaddr, ''EMAILADDR''),
      (rx_phone_number, ''PHONE_NUMBER''),
      (rx_human_name, ''HUMAN_NAME''),
      (rx_username, ''USERNAME''),
      (rx_bgp_as_owner, ''BGP_AS_OWNER''),
      (rx_ipv6_address, ''IPV6_ADDRESS''),
      (rx_internet_name, ''INTERNET_NAME''),
      (rx_bitcoin_address, ''BITCOIN_ADDRESS'')]"

text \<open>The loop over \<open>regexToType\<close>: the first rule that matches decides; \<open>None\<close> at the end.\<close>

fun targetType_loop :: "(regex \<times> string) list \<Rightarrow> string \<Rightarrow> string option" where
  "targetType_loop [] target = None"
| "targetType_loop (rxpair # rest) target =
     (if re_match (fst rxpair) target then Some (snd rxpair) else targetType_loop rest target)"

definition targetType :: "string \<Rightarrow> string option" where
  "targetType target = (if target = [] then None else targetType_loop regexToType target)"

text \<open>No rule of \<open>regexToType\<close> matches the target.\<close>

definition no_rule_matches :: "string \<Rightarrow> bool" where
  "no_rule_matches target = (\<not> list_ex (\<lambda>rxpair. re_match (fst rxpair) target) regexToType)"

section \<open>\<open>SpiderFoot.modulesProducing\<close> (sflib.py)\<close>

text \<open>
  \<open>self.opts['__modules__']\<close> is \<open>None\<close> or a dict from module names to module descriptions;
  the dict is an association list in insertion order. Of a description only the value of
  \<open>.get('provides')\<close> is read: \<open>None\<close> or a list of event types.
\<close>

record modinfo =
  provides :: "string list option"

text \<open>\<open>for evtype in provides: if evtype in events: modlist.append(mod)\<close>\<close>

fun provides_loop :: "string list \<Rightarrow> string list \<Rightarrow> string \<Rightarrow> string list \<Rightarrow> string list" where
  "provides_loop [] events mname modlist = modlist"
| "provides_loop (evtype # rest) events mname modlist =
     provides_loop rest events mname (if evtype \<in> set events then modlist @ [mname] else modlist)"

text \<open>\<open>for mod in list(loaded_modules.keys())\<close>, with \<open>loaded_modules[mod]\<close> beside each key.\<close>

fun modules_loop :: "(string \<times> modinfo) list \<Rightarrow> string list \<Rightarrow> string list \<Rightarrow> string list" where
  "modules_loop [] events modlist = modlist"
| "modules_loop ((mname, info) # rest) events modlist =
     (case provides info of
        None \<Rightarrow> modules_loop rest events modlist
      | Some [] \<Rightarrow> modules_loop rest events modlist
      | Some prov \<Rightarrow>
          modules_loop rest events
            (provides_loop prov events mname
               (if ''*'' \<in> set events then modlist @ [mname] else modlist)))"

text \<open>
  \<open>list(set(modlist))\<close> keeps one copy of each name, in the iteration order of the Python
  set, which depends on the hashes of the strings: \<open>set_order\<close> is that rearrangement.
\<close>

definition modulesProducing ::
  "(string list \<Rightarrow> string list) \<Rightarrow> (string \<times> modinfo) list option \<Rightarrow> string list \<Rightarrow> string list" where
  "modulesProducing set_order loaded_modules events =
     (if events = [] then []
      else case loaded_modules of
             None \<Rightarrow> []
           | Some [] \<Rightarrow> []
           | Some mods \<Rightarrow> set_order (remdups (modules_loop mods events [])))"

section \<open>Events\<close>

datatype pyerr = ValueError | TypeError | AttributeError | IndexError

text \<open>
  Modelled from the spec: the class \<open>SpiderFootEvent\<close> of the package \<open>spiderfoot\<close>, which is
  not among the sources. An event is "immutable after construction" and carries its
  \<open>type\<close>, its \<open>data\<close>, \<open>generatedBy\<close> and \<open>sourceEvent\<close>, an "owning reference to the Event that
  caused this one to be created, or none for root events". The attributes have the names
  by which the modules read them: \<open>eventType\<close>, \<open>data\<close>, \<open>module\<close>, \<open>sourceEvent\<close>.
\<close>

datatype event =
  SpiderFootEvent (eventType: string) (data: string) (module: string) (sourceEvent: "event option")

text \<open>
  Modelled from the spec: the constructor of \<open>SpiderFootEvent\<close>, missing with the class. It
  "fails with ValueError if data is empty/none (except for allowed empty-data event types)
  or if sourceEvent is required but missing"; the source event is "none for root events",
  whose type is \<open>ROOT\<close>. Which types may carry empty data is the parameter \<open>allowEmpty\<close>.
\<close>

definition construct ::
  "(string \<Rightarrow> bool) \<Rightarrow> string \<Rightarrow> string \<Rightarrow> string \<Rightarrow> event option \<Rightarrow> pyerr + event" where
  "construct allowEmpty ty d m src =
     (if d = [] \<and> \<not> allowEmpty ty then Inl ValueError
      else if ty = ''ROOT'' then Inr (SpiderFootEvent ty d m None)
      else case src of
             None \<Rightarrow> Inl ValueError
           | Some e \<Rightarrow> Inr (SpiderFootEvent ty d m (Some e)))"

text \<open>
  The events a scan can create: every event comes out of the constructor, and the source
  event handed to the constructor is an event created before.
\<close>

inductive created :: "(string \<Rightarrow> bool) \<Rightarrow> event \<Rightarrow> bool" for allowEmpty where
  created_root: "construct allowEmpty ty d m None = Inr e \<Longrightarrow> created allowEmpty e"
| created_child: "created allowEmpty p \<Longrightarrow> construct allowEmpty ty d m (Some p) = Inr e
     \<Longrightarrow> created allowEmpty e"

code_pred created .

text \<open>The chain of \<open>sourceEvent\<close> references, from an event to the end of the chain.\<close>

fun lineage :: "event \<Rightarrow> event list" where
  "lineage (SpiderFootEvent ty d m src) =
     SpiderFootEvent ty d m src # (case src of None \<Rightarrow> [] | Some p \<Rightarrow> lineage p)"

definition is_root :: "event \<Rightarrow> bool" where
  "is_root e = (eventType e = ''ROOT'')"

text \<open>
  What the chain of an event must look like: it ends at an event of type \<open>ROOT\<close> that has
  no source event, that event is the only \<open>ROOT\<close> of the chain, and every other event of the
  chain has a source event.
\<close>

definition lineage_ok :: "event \<Rightarrow> bool" where
  "lineage_ok e \<longleftrightarrow>
     is_root (last (lineage e)) \<and> sourceEvent (last (lineage e)) = None
     \<and> length (filter is_root (lineage e)) = 1
     \<and> (\<forall>x \<in> set (lineage e). \<not> is_root x \<longrightarrow> sourceEvent x \<noteq> None)"

text \<open>The scenario of the spec: the root for \<open>example.com\<close>, an address found from it, a listing found from the address.\<close>

definition ex_root :: event where
  "ex_root = SpiderFootEvent ''ROOT'' ''example.com'' '''' None"
definition ex_ip :: event where
  "ex_ip = SpiderFootEvent ''IP_ADDRESS'' ''93.184.216.34'' ''sfp_a'' (Some ex_root)"
definition ex_mal :: event where
  "ex_mal = SpiderFootEvent ''MALICIOUS_IPADDR'' ''listed'' ''sfp_b'' (Some ex_ip)"

section \<open>The world of a module\<close>

text \<open>
  A module reaches the outside through the helper object \<open>self.sf\<close>, through the methods it
  inherits from \<open>SpiderFootPlugin\<close> and through library calls. The answers of the outside are
  the fields of the record \<open>env\<close>; one \<open>env\<close> gives the answers during one call of a module
  method. What a call does to the outside is listed, in order, as its effects.
\<close>

datatype json =
    JNull | JBool bool | JInt int | JStr string | JArr "json list" | JObj "(string \<times> json) list"

record fetch_result =
  code :: "string option"
  content :: "string option"

datatype portres =
    PFalse              \<comment> \<open>the connection failed\<close>
  | PTrue               \<comment> \<open>the port is open and nothing was read\<close>
  | PBytes string       \<comment> \<open>the bytes read from the open port\<close>

record env =
  fetchUrl :: "string \<Rightarrow> fetch_result"
    \<comment> \<open>\<open>sf.fetchUrl(url, ...)\<close>: the keys \<open>code\<close> and \<open>content\<close> of the response\<close>
  json_loads :: "string \<Rightarrow> string + json"
    \<comment> \<open>\<open>json.loads\<close>; \<open>Inl e\<close> is a \<open>JSONDecodeError\<close> with text \<open>e\<close>\<close>
  py_str :: "json \<Rightarrow> string"
    \<comment> \<open>\<open>str(x)\<close> of a value that is not a string\<close>
  resolveHost :: "string \<Rightarrow> bool"
    \<comment> \<open>whether \<open>sf.resolveHost(host)\<close> is a non-empty list\<close>
  checkForStop :: "nat \<Rightarrow> bool"
    \<comment> \<open>the answer of \<open>self.checkForStop()\<close> when called for the n-th time in this call\<close>
  cacheGet :: "string \<Rightarrow> string option"
    \<comment> \<open>\<open>sf.cacheGet(label, hours)\<close>\<close>
  in_network :: "string \<Rightarrow> string \<Rightarrow> bool option"
    \<comment> \<open>\<open>IPAddress(ip) in IPNetwork(qry)\<close>; \<open>None\<close> when it raises\<close>
  optValueToData :: "string \<Rightarrow> string option"
    \<comment> \<open>\<open>sf.optValueToData(val)\<close>\<close>
  set_iter :: "string list \<Rightarrow> string list"
    \<comment> \<open>the order in which a Python set of these distinct strings is iterated\<close>
  py_int :: "string \<Rightarrow> int option"
    \<comment> \<open>\<open>int(s)\<close>; \<open>None\<close> is a \<open>ValueError\<close>\<close>
  shuffle :: "int list \<Rightarrow> int list"
    \<comment> \<open>the list after \<open>random.SystemRandom().shuffle\<close>\<close>
  ipnetwork :: "string \<Rightarrow> (int \<times> string list) option"
    \<comment> \<open>\<open>IPNetwork(s)\<close>: its \<open>prefixlen\<close> and \<open>str(ip)\<close> of its addresses; \<open>None\<close> when it raises\<close>
  tryPortWrapper :: "nat \<Rightarrow> string \<Rightarrow> int list \<Rightarrow> (string \<times> portres) list"
    \<comment> \<open>the dict \<open>portResults\<close> after the threads of one batch, in insertion order;
        the first argument tells the batches of one call apart\<close>
  decode :: "string \<Rightarrow> string"
    \<comment> \<open>\<open>str(b, 'utf-8', errors='replace')\<close>\<close>
  hashstring :: "string \<Rightarrow> string"
    \<comment> \<open>\<open>sf.hashstring\<close>, a SHA256 digest\<close>
  findall_bitcoin :: "string \<Rightarrow> string list"
    \<comment> \<open>\<open>re.findall\<close> of the address pattern of \<open>sfp_bitcoin\<close>\<close>
  check_bc :: "string \<Rightarrow> bool"
    \<comment> \<open>\<open>sfp_bitcoin.check_bc\<close>, a checksum by SHA256\<close>
  parseEmails :: "string \<Rightarrow> string list"
    \<comment> \<open>\<open>sf.parseEmails\<close>\<close>
  validHost :: "string \<Rightarrow> bool"
    \<comment> \<open>\<open>sf.validHost(host, opts['_internettlds'])\<close>\<close>
  target_matches_domain :: "string \<Rightarrow> bool"
    \<comment> \<open>\<open>getTarget().matches(v, includeChildren=True, includeParents=True)\<close>\<close>
  target_matches :: "string \<Rightarrow> bool"
    \<comment> \<open>\<open>getTarget().matches(v)\<close>\<close>
  genericusers :: "string list"
    \<comment> \<open>\<open>opts['_genericusers'].split(",")\<close>\<close>

datatype effect =
    Debug string                \<comment> \<open>\<open>sf.debug\<close>\<close>
  | Info string                 \<comment> \<open>\<open>sf.info\<close>\<close>
  | Error string                \<comment> \<open>\<open>sf.error\<close>\<close>
  | FetchUrl string             \<comment> \<open>\<open>sf.fetchUrl\<close>\<close>
  | ResolveHost string          \<comment> \<open>\<open>sf.resolveHost\<close>\<close>
  | CacheGet string             \<comment> \<open>\<open>sf.cacheGet\<close>\<close>
  | CachePut string string      \<comment> \<open>\<open>sf.cachePut\<close>\<close>
  | CheckForStop bool           \<comment> \<open>\<open>self.checkForStop()\<close> and its answer\<close>
  | TryPorts string "int list"  \<comment> \<open>\<open>self.tryPortWrapper\<close>: connections to the ports of one batch\<close>
  | Notify event                \<comment> \<open>\<open>self.notifyListeners\<close>\<close>

datatype outcome = Returned | Raised pyerr

text \<open>Logging is the only thing a call did.\<close>

fun is_log :: "effect \<Rightarrow> bool" where
  "is_log (Debug _) = True"
| "is_log (Info _) = True"
| "is_log (Error _) = True"
| "is_log _ = False"

definition only_logs :: "effect list \<Rightarrow> bool" where
  "only_logs effs = list_all is_log effs"

text \<open>The events handed to \<open>notifyListeners\<close>, in order, and their (type, data, generatedBy).\<close>

fun notified :: "effect list \<Rightarrow> event list" where
  "notified [] = []"
| "notified (Notify e # effs) = e # notified effs"
| "notified (_ # effs) = notified effs"


text \<open>What a call still did after \<open>checkForStop\<close> answered true for the first time.\<close>

fun after_stop :: "effect list \<Rightarrow> effect list" where
  "after_stop [] = []"
| "after_stop (e # effs) = (if e = CheckForStop True then effs else after_stop effs)"

text \<open>The parts of the result of a module method.\<close>

definition outcome_of :: "outcome \<times> 's \<times> effect list \<Rightarrow> outcome" where
  "outcome_of r = fst r"

definition state_of :: "outcome \<times> 's \<times> effect list \<Rightarrow> 's" where
  "state_of r = fst (snd r)"

definition effects_of :: "outcome \<times> 's \<times> effect list \<Rightarrow> effect list" where
  "effects_of r = snd (snd r)"

text \<open>String helpers: \<open>s.startswith(p)\<close>, \<open>s.split(sep)\<close>, \<open>s.strip()\<close>, \<open>s.strip('.')\<close>, \<open>s.lower()\<close>.\<close>

definition startswith :: "string \<Rightarrow> string \<Rightarrow> bool" where
  "startswith s p = (take (length p) s = p)"

fun split_on :: "char \<Rightarrow> string \<Rightarrow> string list" where
  "split_on sep [] = [[]]"
| "split_on sep (c # cs) =
     (if c = sep then [] # split_on sep cs
      else case split_on sep cs of
             [] \<Rightarrow> [[c]]
           | w # ws \<Rightarrow> (c # w) # ws)"

definition strip_where :: "(char \<Rightarrow> bool) \<Rightarrow> string \<Rightarrow> string" where
  "strip_where P s = rev (dropWhile P (rev (dropWhile P s)))"

definition py_strip :: "string \<Rightarrow> string" where
  "py_strip s = strip_where (\<lambda>c. is_space (cp c)) s"

definition strip_dots :: "string \<Rightarrow> string" where
  "strip_dots s = strip_where (\<lambda>c. c = CHR ''.'') s"

text \<open>
  The upper-case letters below U+0100 and, at the same places, their lower-case letters;
  \<open>lower_char\<close> is \<open>str.lower\<close> on one character, read from this table.
\<close>

definition upper_letters :: string where
  "upper_letters = ''ABCDEFGHIJKLMNOPQRSTUVWXYZ'' @
     [CHR 0xC0, CHR 0xC1, CHR 0xC2, CHR 0xC3, CHR 0xC4, CHR 0xC5, CHR 0xC6, CHR 0xC7,
      CHR 0xC8, CHR 0xC9, CHR 0xCA, CHR 0xCB, CHR 0xCC, CHR 0xCD, CHR 0xCE, CHR 0xCF,
      CHR 0xD0, CHR 0xD1, CHR 0xD2, CHR 0xD3, CHR 0xD4, CHR 0xD5, CHR 0xD6, CHR 0xD8,
      CHR 0xD9, CHR 0xDA, CHR 0xDB, CHR 0xDC, CHR 0xDD, CHR 0xDE]"

definition lower_letters :: string where
  "lower_letters = ''abcdefghijklmnopqrstuvwxyz'' @
     [CHR 0xE0, CHR 0xE1, CHR 0xE2, CHR 0xE3, CHR 0xE4, CHR 0xE5, CHR 0xE6, CHR 0xE7,
      CHR 0xE8, CHR 0xE9, CHR 0xEA, CHR 0xEB, CHR 0xEC, CHR 0xED, CHR 0xEE, CHR 0xEF,
      CHR 0xF0, CHR 0xF1, CHR 0xF2, CHR 0xF3, CHR 0xF4, CHR 0xF5, CHR 0xF6, CHR 0xF8,
      CHR 0xF9, CHR 0xFA, CHR 0xFB, CHR 0xFC, CHR 0xFD, CHR 0xFE]"

definition lower_char :: "char \<Rightarrow> char" where
  "lower_char c = (case map_of (zip upper_letters lower_letters) c of None \<Rightarrow> c | Some l \<Rightarrow> l)"

definition py_lower :: "string \<Rightarrow> string" where
  "py_lower s = map lower_char s"

text \<open>
  In the modules below every event is built with non-empty data and with the handled event
  as its source, so the constructor of the event cannot fail there; the events are written
  with the constructor of the datatype.
\<close>

section \<open>\<open>sfp_projectdiscovery\<close>\<close>

record pd_opts =
  api_key :: string
  verify :: bool

text \<open>\<open>userOpts\<close>: the options a scan sets; an absent key leaves the option as it is.\<close>

record pd_userOpts =
  u_api_key :: "string option"
  u_verify :: "bool option"

record pd_state =
  pd_opts :: pd_opts
  pd_results :: "string set"
  pd_errorState :: bool

text \<open>The attributes of the class: \<open>opts\<close>, \<open>results = None\<close> (no key is in it), \<open>errorState = False\<close>.\<close>

definition pd_init :: pd_state where
  "pd_init = \<lparr>pd_opts = \<lparr>api_key = '''', verify = True\<rparr>, pd_results = {}, pd_errorState = False\<rparr>"

definition pd_setup :: "pd_state \<Rightarrow> pd_userOpts \<Rightarrow> pd_state" where
  "pd_setup st userOpts =
     st\<lparr>pd_results := {},
        pd_opts := \<lparr>api_key = (case u_api_key userOpts of None \<Rightarrow> api_key (pd_opts st) | Some v \<Rightarrow> v),
                    verify = (case u_verify userOpts of None \<Rightarrow> verify (pd_opts st) | Some v \<Rightarrow> v)\<rparr>\<rparr>"

text \<open>\<open>query\<close> returns the decoded response; \<open>JNull\<close> stands for Python's \<open>None\<close>.\<close>

definition pd_query :: "env \<Rightarrow> string \<Rightarrow> json \<times> effect list" where
  "pd_query env qry =
     (let url = ''https://dns.projectdiscovery.io/dns/'' @ qry @ ''/subdomains'' in
      case content (fetchUrl env url) of
        None \<Rightarrow>
          (JNull, [FetchUrl url,
                   Info (''No DNS info found in chaos projectdiscovery API for '' @ qry)])
      | Some c \<Rightarrow>
          (case json_loads env c of
             Inl e \<Rightarrow>
               (JNull, [FetchUrl url,
                        Error (''Error processing JSON response from Chaos projectdiscovery: '' @ e)])
           | Inr info \<Rightarrow> (info, [FetchUrl url])))"

text \<open>
  Members of a Python set: lists and dicts are unhashable, and \<open>True\<close>, \<open>False\<close> are equal to
  \<open>1\<close>, \<open>0\<close>. (JSON numbers are the integers here.)
\<close>

fun hashable :: "json \<Rightarrow> bool" where
  "hashable (JArr _) = False"
| "hashable (JObj _) = False"
| "hashable _ = True"

fun py_key :: "json \<Rightarrow> json" where
  "py_key (JBool b) = JInt (if b then 1 else 0)"
| "py_key j = j"

text \<open>\<open>f"{subdomain}"\<close>\<close>

fun py_format :: "env \<Rightarrow> json \<Rightarrow> string" where
  "py_format env (JStr s) = s"
| "py_format env j = py_str env j"

text \<open>
  The loop over \<open>subdomains\<close>; \<open>n\<close> counts the polls of \<open>checkForStop\<close> so far and
  \<open>resultsSet\<close> holds the subdomains handled so far.
\<close>

fun pd_loop :: "env \<Rightarrow> pd_opts \<Rightarrow> event \<Rightarrow> nat \<Rightarrow> json list \<Rightarrow> json list \<Rightarrow> outcome \<times> effect list" where
  "pd_loop env opts ev n resultsSet [] = (Returned, [])"
| "pd_loop env opts ev n resultsSet (subdomain # rest) =
     (if checkForStop env n then (Returned, [CheckForStop True])
      else if \<not> hashable subdomain then (Raised TypeError, [CheckForStop False])
      else if py_key subdomain \<in> set resultsSet then
        (case pd_loop env opts ev (Suc n) resultsSet rest of
           (out, effs) \<Rightarrow> (out, CheckForStop False # effs))
      else
        (let completeSubdomain = py_format env subdomain @ ''.'' @ data ev;
             this =
               (if verify opts \<and> \<not> resolveHost env completeSubdomain then
                  [ResolveHost completeSubdomain,
                   Debug (''Host '' @ completeSubdomain @ '' could not be resolved''),
                   Notify (SpiderFootEvent ''INTERNET_NAME_UNRESOLVED'' completeSubdomain
                             ''sfp_projectdiscovery'' (Some ev))]
                else
                  (if verify opts then [ResolveHost completeSubdomain] else []) @
                  [Notify (SpiderFootEvent ''INTERNET_NAME'' completeSubdomain
                             ''sfp_projectdiscovery'' (Some ev))])
         in case pd_loop env opts ev (Suc n) (py_key subdomain # resultsSet) rest of
              (out, effs) \<Rightarrow> (out, CheckForStop False # this @ effs)))"

definition pd_handleEvent :: "env \<Rightarrow> pd_state \<Rightarrow> event \<Rightarrow> outcome \<times> pd_state \<times> effect list" where
  "pd_handleEvent env st event =
     (let eventName = eventType event;
          srcModuleName = module event;
          eventData = data event;
          received = Debug (''Received event, '' @ eventName @ '', from '' @ srcModuleName)
      in
      if pd_errorState st then (Returned, st, [])
      else if api_key (pd_opts st) = '''' then
        (Returned, st\<lparr>pd_errorState := True\<rparr>,
         [received, Error ''You enabled sfp_projectdiscovery but did not set an API key!''])
      else if eventData \<in> pd_results st then
        (Returned, st, [received, Debug (''Skipping '' @ eventData @ '', already checked.'')])
      else
        (let st1 = st\<lparr>pd_results := insert eventData (pd_results st)\<rparr> in
         if eventName \<noteq> ''DOMAIN_NAME'' then (Returned, st1, [received])
         else
           (case pd_query env eventData of
              (result, qeffs) \<Rightarrow>
                (case result of
                   JNull \<Rightarrow> (Returned, st1, received # qeffs)
                 | JObj kvs \<Rightarrow>
                     (case map_of kvs ''subdomains'' of
                        Some (JArr subdomains) \<Rightarrow>
                          (case pd_loop env (pd_opts st1) event 0 [] subdomains of
                             (out, leffs) \<Rightarrow>
                               (out, st1,
                                received # qeffs @
                                [Notify (SpiderFootEvent ''RAW_RIR_DATA'' (py_str env result)
                                           ''sfp_projectdiscovery'' (Some event))] @ leffs))
                      | _ \<Rightarrow> (Returned, st1, received # qeffs))
                 | _ \<Rightarrow> (Raised AttributeError, st1, received # qeffs)))))"

text \<open>Events delivered one after the other within a scan, each with the answers of its time.\<close>

fun pd_run :: "pd_state \<Rightarrow> (env \<times> event) list \<Rightarrow> pd_state" where
  "pd_run st [] = st"
| "pd_run st ((env, event) # calls) = pd_run (state_of (pd_handleEvent env st event)) calls"

section \<open>\<open>sfp_cinsscore\<close>\<close>

record cs_opts =
  checkaffiliates :: bool
  cacheperiod :: int
  checknetblocks :: bool
  checksubnets :: bool

record cs_userOpts =
  u_checkaffiliates :: "bool option"
  u_cacheperiod :: "int option"
  u_checknetblocks :: "bool option"
  u_checksubnets :: "bool option"

record cs_state =
  cs_opts :: cs_opts
  cs_results :: "string set"
  cs_errorState :: bool

definition cs_init :: cs_state where
  "cs_init =
     \<lparr>cs_opts = \<lparr>checkaffiliates = True, cacheperiod = 18, checknetblocks = True, checksubnets = True\<rparr>,
      cs_results = {}, cs_errorState = False\<rparr>"

definition cs_setup :: "cs_state \<Rightarrow> cs_userOpts \<Rightarrow> cs_state" where
  "cs_setup st userOpts =
     st\<lparr>cs_results := {},
        cs_errorState := False,
        cs_opts :=
          \<lparr>checkaffiliates =
             (case u_checkaffiliates userOpts of None \<Rightarrow> checkaffiliates (cs_opts st) | Some v \<Rightarrow> v),
           cacheperiod =
             (case u_cacheperiod userOpts of None \<Rightarrow> cacheperiod (cs_opts st) | Some v \<Rightarrow> v),
           checknetblocks =
             (case u_checknetblocks userOpts of None \<Rightarrow> checknetblocks (cs_opts st) | Some v \<Rightarrow> v),
           checksubnets =
             (case u_checksubnets userOpts of None \<Rightarrow> checksubnets (cs_opts st) | Some v \<Rightarrow> v)\<rparr>\<rparr>"

definition cs_url :: string where
  "cs_url = ''http://cinsscore.com/list/ci-badguys.txt''"

text \<open>
  The loop of \<open>query\<close> over the lines of the list. The texts of the debug messages leave
  out the text of the exception.
\<close>

fun cs_lines :: "env \<Rightarrow> string \<Rightarrow> string \<Rightarrow> string list \<Rightarrow> string option \<times> effect list" where
  "cs_lines env qry tType [] = (None, [])"
| "cs_lines env qry tType (line # rest) =
     (let ip = py_lower (py_strip line) in
      if tType = ''netblock'' then
        (case in_network env ip qry of
           None \<Rightarrow>
             (case cs_lines env qry tType rest of
                (r, effs) \<Rightarrow> (r, Debug ''Error encountered parsing'' # effs))
         | Some True \<Rightarrow>
             (Some cs_url,
              [Debug (ip @ '' found within netblock/subnet '' @ qry @ '' in cinsscore.com list.'')])
         | Some False \<Rightarrow> cs_lines env qry tType rest)
      else if tType = ''ip'' then
        (if py_lower qry = ip then (Some cs_url, [Debug (qry @ '' found in cinsscore.com list.'')])
         else cs_lines env qry tType rest)
      else cs_lines env qry tType rest)"

definition cs_query :: "env \<Rightarrow> cs_state \<Rightarrow> string \<Rightarrow> string \<Rightarrow> string option \<times> cs_state \<times> effect list" where
  "cs_query env st qry tType =
     (let label = ''sfmal__cinsscore'' in
      case cacheGet env label of
        Some c \<Rightarrow>
          (case cs_lines env qry tType (split_on CHR 0x0A c) of
             (r, effs) \<Rightarrow> (r, st, CacheGet label # effs))
      | None \<Rightarrow>
          (let res = fetchUrl env cs_url in
           if code res \<noteq> Some ''200'' then
             (None, st\<lparr>cs_errorState := True\<rparr>,
              [CacheGet label, FetchUrl cs_url, Error (''Unable to fetch '' @ cs_url)])
           else
             (case content res of
                None \<Rightarrow>
                  (None, st\<lparr>cs_errorState := True\<rparr>,
                   [CacheGet label, FetchUrl cs_url, Error (''Unable to fetch '' @ cs_url)])
              | Some c \<Rightarrow>
                  (case cs_lines env qry tType (split_on CHR 0x0A c) of
                     (r, effs) \<Rightarrow>
                       (r, st, [CacheGet label, FetchUrl cs_url, CachePut label c] @ effs)))))"

text \<open>The choice of \<open>targetType\<close> and \<open>evtType\<close> by the type of the event; \<open>None\<close>: return.\<close>

definition cs_kind :: "cs_opts \<Rightarrow> string \<Rightarrow> (string \<times> string) option" where
  "cs_kind opts eventName =
     (if eventName = ''IP_ADDRESS'' then Some (''ip'', ''MALICIOUS_IPADDR'')
      else if eventName = ''AFFILIATE_IPADDR'' then
        (if \<not> checkaffiliates opts then None else Some (''ip'', ''MALICIOUS_AFFILIATE_IPADDR''))
      else if eventName = ''NETBLOCK_OWNER'' then
        (if \<not> checknetblocks opts then None else Some (''netblock'', ''MALICIOUS_NETBLOCK''))
      else if eventName = ''NETBLOCK_MEMBER'' then
        (if \<not> checksubnets opts then None else Some (''netblock'', ''MALICIOUS_SUBNET''))
      else None)"

definition cs_handleEvent :: "env \<Rightarrow> cs_state \<Rightarrow> event \<Rightarrow> outcome \<times> cs_state \<times> effect list" where
  "cs_handleEvent env st event =
     (let eventName = eventType event;
          srcModuleName = module event;
          eventData = data event;
          received = Debug (''Received event, '' @ eventName @ '', from '' @ srcModuleName)
      in
      if eventData \<in> cs_results st then
        (Returned, st, [received, Debug (''Skipping '' @ eventData @ '', already checked.'')])
      else if cs_errorState st then (Returned, st, [received])
      else
        (let st1 = st\<lparr>cs_results := insert eventData (cs_results st)\<rparr> in
         case cs_kind (cs_opts st1) eventName of
           None \<Rightarrow> (Returned, st1, [received])
         | Some (tType, evtType) \<Rightarrow>
             (let checking = Debug (''Checking maliciousness of '' @ eventData @ '' with cinsscore.com'') in
              case cs_query env st1 eventData tType of
                (None, st2, qeffs) \<Rightarrow> (Returned, st2, [received, checking] @ qeffs)
              | (Some url, st2, qeffs) \<Rightarrow>
                  (if url = [] then (Returned, st2, [received, checking] @ qeffs)
                   else
                     (Returned, st2,
                      [received, checking] @ qeffs @
                      [Notify (SpiderFootEvent evtType
                                 (''cinsscore.com ['' @ eventData @ '']'' @ [CHR 0x0A] @
                                  ''<SFURL>'' @ url @ ''</SFURL>'')
                                 ''sfp_cinsscore'' (Some event))])))))"

fun cs_run :: "cs_state \<Rightarrow> (env \<times> event) list \<Rightarrow> cs_state" where
  "cs_run st [] = st"
| "cs_run st ((env, event) # calls) = cs_run (state_of (cs_handleEvent env st event)) calls"

section \<open>\<open>sfp_bitcoin\<close>\<close>

text \<open>The module has no options of its own and no \<open>errorState\<close>; its state is \<open>results\<close>.\<close>

record bc_state =
  bc_results :: "string set"

definition bc_init :: bc_state where
  "bc_init = \<lparr>bc_results = {}\<rparr>"

definition bc_setup :: "bc_state \<Rightarrow> bc_state" where
  "bc_setup st = st\<lparr>bc_results := {}\<rparr>"

text \<open>\<open>for m in matches\<close>\<close>

fun bc_matches :: "env \<Rightarrow> event \<Rightarrow> string list \<Rightarrow> effect list" where
  "bc_matches env event [] = []"
| "bc_matches env event (m # rest) =
     Debug (''Bitcoin potential match: '' @ m) #
     (if check_bc env m then
        [Notify (SpiderFootEvent ''BITCOIN_ADDRESS'' m ''sfp_bitcoin'' (Some event))]
      else []) @
     bc_matches env event rest"

definition bc_handleEvent :: "env \<Rightarrow> bc_state \<Rightarrow> event \<Rightarrow> outcome \<times> bc_state \<times> effect list" where
  "bc_handleEvent env st event =
     (let eventName = eventType event;
          srcModuleName = module event;
          eventData = data event;
          sourceData = hashstring env eventData
      in
      if sourceData \<in> bc_results st then (Returned, st, [])
      else
        (Returned, st\<lparr>bc_results := insert sourceData (bc_results st)\<rparr>,
         Debug (''Received event, '' @ eventName @ '', from '' @ srcModuleName) #
         bc_matches env event (findall_bitcoin env eventData)))"

fun bc_run :: "bc_state \<Rightarrow> (env \<times> event) list \<Rightarrow> bc_state" where
  "bc_run st [] = st"
| "bc_run st ((env, event) # calls) = bc_run (state_of (bc_handleEvent env st event)) calls"

section \<open>\<open>sfp_email\<close>\<close>

text \<open>
  The module has no attribute besides its options: \<open>setup\<close> stores options only, and
  \<open>handleEvent\<close> keeps nothing from one call to the next. The state is the unit value. The
  attribute \<open>moduleDataSource\<close>, copied from the handled event to the new one, is not part of
  the events here.
\<close>

text \<open>The loop over \<open>emails\<close>; \<open>myres\<close> holds the addresses reported in this call.\<close>

fun em_loop :: "env \<Rightarrow> event \<Rightarrow> string list \<Rightarrow> string list \<Rightarrow> outcome \<times> effect list" where
  "em_loop env event myres [] = (Returned, [])"
| "em_loop env event myres (email0 # rest) =
     (let email = py_lower email0 in
      case split_on CHR ''@'' email of
        user # domain # _ \<Rightarrow>
          (let mailDom = strip_dots domain in
           if \<not> validHost env mailDom then
             (Returned, [Debug (''Skipping '' @ email @ '' as not a valid e-mail.'')])
           else
             (let external = (\<not> target_matches_domain env mailDom \<and> \<not> target_matches env email);
                  evttype1 = (if external then ''AFFILIATE_EMAILADDR'' else ''EMAILADDR'');
                  evttype2 = (if startswith (eventType event) ''AFFILIATE_''
                              then ''AFFILIATE_EMAILADDR'' else evttype1);
                  evttype = (if \<not> startswith evttype2 ''AFFILIATE_'' \<and> user \<in> set (genericusers env)
                             then ''EMAILADDR_GENERIC'' else evttype2);
                  before =
                    (if external then [Debug ''External domain, so possible affiliate e-mail''] else []) @
                    [Info (''Found e-mail address: '' @ email)];
                  mail = strip_dots email
              in
              if mail \<in> set myres then
                (case em_loop env event myres rest of
                   (out, effs) \<Rightarrow> (out, before @ Debug ''Already found from this source.'' # effs))
              else
                (case em_loop env event (myres @ [mail]) rest of
                   (out, effs) \<Rightarrow>
                     (out, before @
                           Notify (SpiderFootEvent evttype mail ''sfp_email'' (Some event)) # effs))))
      | _ \<Rightarrow> (Raised IndexError, []))"

definition em_handleEvent :: "env \<Rightarrow> unit \<Rightarrow> event \<Rightarrow> outcome \<times> unit \<times> effect list" where
  "em_handleEvent env st event =
     (let eventName = eventType event;
          srcModuleName = module event;
          eventData = data event
      in case em_loop env event [] (parseEmails env eventData) of
           (out, effs) \<Rightarrow>
             (out, st, Debug (''Received event, '' @ eventName @ '', from '' @ srcModuleName) # effs))"

section \<open>\<open>sfp_portscan_tcp\<close>\<close>

record ps_opts =
  ports :: "string list"
  timeout :: int
  maxthreads :: int
  randomize :: bool
  netblockscan :: bool
  netblockscanmax :: int

record ps_userOpts =
  u_ports :: "string list option"
  u_timeout :: "int option"
  u_maxthreads :: "int option"
  u_randomize :: "bool option"
  u_netblockscan :: "bool option"
  u_netblockscanmax :: "int option"

text \<open>
  \<open>portlist\<close> is a list held by the class; \<open>setup\<close> appends to it. \<open>portResults\<close> is set anew
  by every \<open>tryPortWrapper\<close> and \<open>lock\<close> by every \<open>setup\<close>; they are not part of the state.
\<close>

record ps_state =
  ps_opts :: ps_opts
  ps_results :: "string set"
  ps_portlist :: "int list"
  ps_errorState :: bool

definition ps_init :: ps_state where
  "ps_init =
     \<lparr>ps_opts =
        \<lparr>ports = [''21'', ''22'', ''23'', ''25'', ''53'', ''79'', ''80'', ''81'', ''88'', ''110'', ''111'',
                  ''113'', ''119'', ''123'', ''137'', ''138'', ''139'', ''143'', ''161'', ''179'',
                  ''389'', ''443'', ''445'', ''465'', ''512'', ''513'', ''514'', ''515'', ''3306'',
                  ''5432'', ''1521'', ''2638'', ''1433'', ''3389'', ''5900'', ''5901'', ''5902'',
                  ''5903'', ''5631'', ''631'', ''636'',
                  ''990'', ''992'', ''993'', ''995'', ''1080'', ''8080'', ''8888'', ''9000''],
         timeout = 15, maxthreads = 10, randomize = True, netblockscan = True,
         netblockscanmax = 24\<rparr>,
      ps_results = {}, ps_portlist = [], ps_errorState = False\<rparr>"

definition ps_update :: "ps_opts \<Rightarrow> ps_userOpts \<Rightarrow> ps_opts" where
  "ps_update opts userOpts =
     \<lparr>ports = (case u_ports userOpts of None \<Rightarrow> ports opts | Some v \<Rightarrow> v),
      timeout = (case u_timeout userOpts of None \<Rightarrow> timeout opts | Some v \<Rightarrow> v),
      maxthreads = (case u_maxthreads userOpts of None \<Rightarrow> maxthreads opts | Some v \<Rightarrow> v),
      randomize = (case u_randomize userOpts of None \<Rightarrow> randomize opts | Some v \<Rightarrow> v),
      netblockscan = (case u_netblockscan userOpts of None \<Rightarrow> netblockscan opts | Some v \<Rightarrow> v),
      netblockscanmax =
        (case u_netblockscanmax userOpts of None \<Rightarrow> netblockscanmax opts | Some v \<Rightarrow> v)\<rparr>"

text \<open>"Convert to integers": the loop over \<open>set(portlist)\<close>, which yields what is to be appended.\<close>

fun ps_convert :: "env \<Rightarrow> string list \<Rightarrow> int list \<times> effect list" where
  "ps_convert env [] = ([], [])"
| "ps_convert env (port # rest) =
     (case ps_convert env rest of
        (ints, effs) \<Rightarrow>
          (case py_int env port of
             None \<Rightarrow>
               (ints, Debug (''Skipping invalid port '' @ port @ '' specified in port list'') # effs)
           | Some i \<Rightarrow> (i # ints, effs)))"

text \<open>
  \<open>setup\<close>. An empty \<open>ports\<close> option makes \<open>opts['ports'][0]\<close> raise; when the first entry names
  a file or a URL, \<open>portlist\<close> is the string that \<open>optValueToData\<close> returns, whose set is the
  set of its characters, or \<open>None\<close>, which cannot be made a set.
\<close>

definition ps_setup :: "env \<Rightarrow> ps_state \<Rightarrow> ps_userOpts \<Rightarrow> outcome \<times> ps_state \<times> effect list" where
  "ps_setup env st userOpts =
     (let st1 = st\<lparr>ps_results := {}, ps_opts := ps_update (ps_opts st) userOpts\<rparr> in
      case ports (ps_opts st1) of
        [] \<Rightarrow> (Raised IndexError, st1, [])
      | first # _ \<Rightarrow>
          (case (if startswith first ''http://'' \<or> startswith first ''https://'' \<or> startswith first ''@''
                 then map_option (map (\<lambda>c. [c])) (optValueToData env first)
                 else Some (ports (ps_opts st1))) of
             None \<Rightarrow> (Raised TypeError, st1, [])
           | Some portlist \<Rightarrow>
               (case ps_convert env (set_iter env (remdups portlist)) of
                  (ints, effs) \<Rightarrow>
                    (let st2 = st1\<lparr>ps_portlist := ps_portlist st1 @ ints\<rparr> in
                     (Returned,
                      if randomize (ps_opts st2)
                      then st2\<lparr>ps_portlist := shuffle env (ps_portlist st2)\<rparr> else st2,
                      effs)))))"

text \<open>
  \<open>sendEvent\<close>: the loop over the entries of \<open>resArray\<close>. An entry is true when it is \<open>True\<close> or
  a non-empty byte string; only a byte string is neither \<open>""\<close> nor \<open>True\<close>.
\<close>

fun sendEvent :: "env \<Rightarrow> (string \<times> portres) list \<Rightarrow> event \<Rightarrow> effect list" where
  "sendEvent env [] srcEvent = []"
| "sendEvent env ((peer, res) # rest) srcEvent =
     (let evt = SpiderFootEvent ''TCP_PORT_OPEN'' peer ''sfp_portscan_tcp'' (Some srcEvent);
          found = Info (''TCP Port '' @ peer @ '' found to be OPEN.'')
      in case res of
           PFalse \<Rightarrow> sendEvent env rest srcEvent
         | PTrue \<Rightarrow> found # Notify evt # sendEvent env rest srcEvent
         | PBytes b \<Rightarrow>
             (if b = [] then sendEvent env rest srcEvent
              else found # Notify evt #
                   Notify (SpiderFootEvent ''TCP_PORT_OPEN_BANNER'' (decode env b)
                             ''sfp_portscan_tcp'' (Some evt)) #
                   sendEvent env rest srcEvent))"

text \<open>\<open>self.sendEvent(self.tryPortWrapper(ipAddr, portArr), event)\<close>, at poll count \<open>n\<close>.\<close>

definition ps_batch :: "env \<Rightarrow> event \<Rightarrow> string \<Rightarrow> nat \<Rightarrow> int list \<Rightarrow> effect list" where
  "ps_batch env event ipAddr n portArr =
     TryPorts ipAddr portArr # sendEvent env (tryPortWrapper env n ipAddr portArr) event"

text \<open>
  The loop over \<open>self.portlist\<close> for one address. \<open>n\<close> counts the polls of \<open>checkForStop\<close> of
  the call so far. The result is \<open>None\<close> when \<open>checkForStop\<close> answered true (\<open>handleEvent\<close>
  returns), else the ports still to be scanned; with it the poll count and the effects.
\<close>

fun ps_ports ::
  "env \<Rightarrow> int \<Rightarrow> event \<Rightarrow> string \<Rightarrow> nat \<Rightarrow> int \<Rightarrow> int list \<Rightarrow> int list
   \<Rightarrow> int list option \<times> nat \<times> effect list" where
  "ps_ports env maxthr event ipAddr n i portArr [] = (Some portArr, n, [])"
| "ps_ports env maxthr event ipAddr n i portArr (port # rest) =
     (if checkForStop env n then (None, Suc n, [CheckForStop True])
      else if i < maxthr then
        (case ps_ports env maxthr event ipAddr (Suc n) (i + 1) (portArr @ [port]) rest of
           (r, n', effs) \<Rightarrow> (r, n', CheckForStop False # effs))
      else
        (case ps_ports env maxthr event ipAddr (Suc n) 1 [port] rest of
           (r, n', effs) \<Rightarrow>
             (r, n', CheckForStop False # ps_batch env event ipAddr n portArr @ effs)))"

text \<open>The loop over \<open>scanIps\<close>.\<close>

fun ps_ips :: "env \<Rightarrow> ps_state \<Rightarrow> event \<Rightarrow> nat \<Rightarrow> string list \<Rightarrow> ps_state \<times> effect list" where
  "ps_ips env st event n [] = (st, [])"
| "ps_ips env st event n (ipAddr # rest) =
     (if ipAddr \<in> ps_results st then
        (st, [Debug (''Skipping '' @ ipAddr @ '' as already scanned.'')])
      else
        (let st1 = st\<lparr>ps_results := insert ipAddr (ps_results st)\<rparr> in
         case ps_ports env (maxthreads (ps_opts st1)) event ipAddr n 0 [] (ps_portlist st1) of
           (None, n', effs) \<Rightarrow> (st1, effs)
         | (Some portArr, n', effs) \<Rightarrow>
             (case ps_ips env st1 event n' rest of
                (st2, effs2) \<Rightarrow> (st2, effs @ ps_batch env event ipAddr n' portArr @ effs2))))"

text \<open>
  The addresses of a netblock that are scanned; \<open>None\<close> when \<open>ipaddr.split(".")[3]\<close> raises,
  which the \<open>except\<close> of \<open>handleEvent\<close> catches.
\<close>

fun netblock_ips :: "string list \<Rightarrow> string list option" where
  "netblock_ips [] = Some []"
| "netblock_ips (ipaddr # rest) =
     (let parts = split_on CHR ''.'' ipaddr in
      if length parts < 4 then None
      else if parts ! 3 = ''255'' \<or> parts ! 3 = ''0'' then netblock_ips rest
      else if ''255'' \<in> set parts then netblock_ips rest
      else map_option ((#) ipaddr) (netblock_ips rest))"

text \<open>
  The \<open>try\<close> block that fills \<open>scanIps\<close>; \<open>None\<close>: \<open>handleEvent\<close> returns. The error message
  leaves out the text of the exception.
\<close>

definition ps_scanIps :: "env \<Rightarrow> ps_opts \<Rightarrow> event \<Rightarrow> string list option \<times> effect list" where
  "ps_scanIps env opts event =
     (let eventName = eventType event; eventData = data event;
          strange = Error (''Strange netblock identified, unable to parse: '' @ eventData)
      in
      if eventName = ''NETBLOCK_OWNER'' \<and> netblockscan opts then
        (case ipnetwork env eventData of
           None \<Rightarrow> (None, [strange])
         | Some (prefixlen, ips) \<Rightarrow>
             (if prefixlen < netblockscanmax opts then
                (None, [Debug (''Skipping port scanning of '' @ eventData @ '', too big.'')])
              else
                (case netblock_ips ips of
                   None \<Rightarrow> (None, [strange])
                 | Some scanIps \<Rightarrow> (Some scanIps, []))))
      else (Some [eventData], []))"

definition ps_handleEvent :: "env \<Rightarrow> ps_state \<Rightarrow> event \<Rightarrow> outcome \<times> ps_state \<times> effect list" where
  "ps_handleEvent env st event =
     (let eventName = eventType event;
          srcModuleName = module event;
          received = Debug (''Received event, '' @ eventName @ '', from '' @ srcModuleName)
      in
      if ps_errorState st then (Returned, st, [])
      else if ps_portlist st = [] then
        (Returned, st\<lparr>ps_errorState := True\<rparr>,
         [received, Error ''No ports specified in port list''])
      else
        (case ps_scanIps env (ps_opts st) event of
           (None, effs) \<Rightarrow> (Returned, st, received # effs)
         | (Some scanIps, effs) \<Rightarrow>
             (case ps_ips env st event 0 scanIps of
                (st1, effs1) \<Rightarrow> (Returned, st1, received # effs @ effs1))))"


section \<open>Example worlds and events\<close>

text \<open>A quiet world: nothing is cached, nothing is fetched, no host resolves, no port answers.\<close>

definition env0 :: env where
  "env0 =
     \<lparr>fetchUrl = (\<lambda>url. \<lparr>code = None, content = None\<rparr>),
      json_loads = (\<lambda>s. Inl ''Expecting value''),
      py_str = (\<lambda>j. ''{}''),
      resolveHost = (\<lambda>host. False),
      checkForStop = (\<lambda>n. False),
      cacheGet = (\<lambda>label. None),
      in_network = (\<lambda>ip qry. None),
      optValueToData = (\<lambda>val. None),
      set_iter = (\<lambda>xs. xs),
      py_int = (\<lambda>s. None),
      shuffle = (\<lambda>xs. xs),
      ipnetwork = (\<lambda>s. None),
      tryPortWrapper = (\<lambda>n ip portArr. []),
      decode = (\<lambda>b. b),
      hashstring = (\<lambda>s. s),
      findall_bitcoin = (\<lambda>s. []),
      check_bc = (\<lambda>s. False),
      parseEmails = (\<lambda>s. []),
      validHost = (\<lambda>host. False),
      target_matches_domain = (\<lambda>v. False),
      target_matches = (\<lambda>v. False),
      genericusers = []\<rparr>"

definition ev_domain :: event where
  "ev_domain = SpiderFootEvent ''DOMAIN_NAME'' ''example.com'' ''sfp_dnsresolve'' (Some ex_root)"

definition ev_domain2 :: event where
  "ev_domain2 = SpiderFootEvent ''DOMAIN_NAME'' ''example.org'' ''sfp_dnsresolve'' (Some ex_root)"

text \<open>\<open>sfp_projectdiscovery\<close> set up without and with an API key.\<close>

definition pd_nokey :: pd_state where
  "pd_nokey = pd_setup pd_init \<lparr>u_api_key = None, u_verify = None\<rparr>"

definition pd_keyed :: pd_state where
  "pd_keyed = pd_setup pd_init \<lparr>u_api_key = Some ''secret'', u_verify = None\<rparr>"

text \<open>
  A world in which Chaos knows three subdomains, every host resolves, and the scan is
  aborted between the first and the second subdomain.
\<close>

definition env_chaos :: env where
  "env_chaos =
     env0\<lparr>fetchUrl := (\<lambda>url. \<lparr>code = Some ''200'', content = Some ''{...}''\<rparr>),
          json_loads :=
            (\<lambda>s. Inr (JObj [(''domain'', JStr ''example.com''),
                             (''subdomains'', JArr [JStr ''www'', JStr ''mail'', JStr ''dev''])])),
          resolveHost := (\<lambda>host. True),
          checkForStop := (\<lambda>n. n = 1)\<rparr>"

text \<open>A world in which the list of cinsscore.com cannot be fetched.\<close>

definition env_404 :: env where
  "env_404 = env0\<lparr>fetchUrl := (\<lambda>url. \<lparr>code = Some ''404'', content = None\<rparr>)\<rparr>"

text \<open>A world in which the ports 80 and 443 are open; each batch answers in the order asked.\<close>

definition port_text :: "int \<Rightarrow> string" where
  "port_text p = (if p = 80 then ''80'' else if p = 443 then ''443'' else ''?'')"

definition env_open :: env where
  "env_open =
     env0\<lparr>py_int := (\<lambda>s. if s = ''80'' then Some 80 else if s = ''443'' then Some 443 else None),
          tryPortWrapper := (\<lambda>n ip portArr. map (\<lambda>p. (ip @ '':'' @ port_text p, PTrue)) portArr)\<rparr>"

definition ps_two :: ps_userOpts where
  "ps_two =
     \<lparr>u_ports = Some [''80'', ''443''], u_timeout = None, u_maxthreads = None, u_randomize = None,
      u_netblockscan = None, u_netblockscanmax = None\<rparr>"

definition ps_two_fixed :: ps_userOpts where
  "ps_two_fixed = ps_two\<lparr>u_randomize := Some False\<rparr>"

text \<open>A world in which the text holds one address of the target's domain.\<close>

definition env_mail :: env where
  "env_mail =
     env0\<lparr>parseEmails := (\<lambda>s. [''bob@example.com'']),
          validHost := (\<lambda>host. True),
          target_matches_domain := (\<lambda>v. True)\<rparr>"

definition ev_text1 :: event where
  "ev_text1 =
     SpiderFootEvent ''TARGET_WEB_CONTENT'' ''write to bob@example.com'' ''sfp_spider'' (Some ex_root)"

definition ev_text2 :: event where
  "ev_text2 =
     SpiderFootEvent ''RAW_RIR_DATA'' ''write to bob@example.com'' ''sfp_github'' (Some ex_ip)"

text \<open>Events that repeat the data of \<open>ev_domain\<close> and of \<open>ex_ip\<close> with another type and source.\<close>

definition ev_domain_again :: event where
  "ev_domain_again = SpiderFootEvent ''INTERNET_NAME'' ''example.com'' ''sfp_crt'' (Some ex_ip)"

definition ev_ip_again :: event where
  "ev_ip_again =
     SpiderFootEvent ''AFFILIATE_IPADDR'' ''93.184.216.34'' ''sfp_dnsresolve'' (Some ev_domain)"

section \<open>Sequences of deliveries and what a module has seen\<close>

fun ps_run :: "ps_state \<Rightarrow> (env \<times> event) list \<Rightarrow> ps_state" where
  "ps_run st [] = st"
| "ps_run st ((env, event) # calls) = ps_run (state_of (ps_handleEvent env st event)) calls"

text \<open>The module will not work on this data again: it is in \<open>results\<close>, or the module has failed.\<close>

definition pd_seen :: "pd_state \<Rightarrow> string \<Rightarrow> bool" where
  "pd_seen st d \<longleftrightarrow> pd_errorState st \<or> d \<in> pd_results st"

definition cs_seen :: "cs_state \<Rightarrow> string \<Rightarrow> bool" where
  "cs_seen st d \<longleftrightarrow> cs_errorState st \<or> d \<in> cs_results st"

text \<open>
  Three modules after a first call that failed for good: no API key, no port in the port
  list, the list of cinsscore.com not fetched.
\<close>

definition pd_failed :: pd_state where
  "pd_failed = state_of (pd_handleEvent env0 pd_nokey ev_domain)"

definition ps_failed :: ps_state where
  "ps_failed = state_of (ps_handleEvent env0 (state_of (ps_setup env0 ps_init ps_two)) ex_ip)"

definition cs_failed :: cs_state where
  "cs_failed = state_of (cs_handleEvent env_404 cs_init ex_ip)"

text \<open>
  A world with the two open ports in which a netblock of four addresses is scanned and the
  scan is aborted when the ports of the second scanned address are about to be tried.
\<close>

definition env_abort :: env where
  "env_abort =
     env_open\<lparr>checkForStop := (\<lambda>n. n = 2),
              ipnetwork := (\<lambda>s. Some (30, [''10.0.0.0'', ''10.0.0.1'', ''10.0.0.2'', ''10.0.0.3'']))\<rparr>"

definition ev_netblock :: event where
  "ev_netblock = SpiderFootEvent ''NETBLOCK_OWNER'' ''10.0.0.0/30'' ''sfp_ripe'' (Some ex_root)"

text \<open>\<open>sfp_portscan_tcp\<close> set up for the ports 80 and 443, in this order.\<close>

definition ps_ready :: ps_state where
  "ps_ready = state_of (ps_setup env_open ps_init ps_two_fixed)"


text \<open>
  The lookup of \<open>sfp_projectdiscovery\<close> failed: nothing came back, or what came back is not
  JSON. The list of \<open>sfp_cinsscore\<close> is not to be had: it is not in the cache and the fetch
  gave another code than 200 or no content.
\<close>

definition pd_lookup_failed :: "env \<Rightarrow> string \<Rightarrow> bool" where
  "pd_lookup_failed env qry =
     (case content (fetchUrl env (''https://dns.projectdiscovery.io/dns/'' @ qry @ ''/subdomains'')) of
        None \<Rightarrow> True
      | Some c \<Rightarrow> (case json_loads env c of Inl e \<Rightarrow> True | Inr info \<Rightarrow> False))"

definition cs_fetch_failed :: "env \<Rightarrow> bool" where
  "cs_fetch_failed env =
     (cacheGet env ''sfmal__cinsscore'' = None
      \<and> (code (fetchUrl env cs_url) \<noteq> Some ''200'' \<or> content (fetchUrl env cs_url) = None))"

text \<open>The call wrote an \<open>info\<close> or \<open>error\<close> message.\<close>

fun is_report :: "effect \<Rightarrow> bool" where
  "is_report (Info _) = True"
| "is_report (Error _) = True"
| "is_report _ = False"

definition no_userOpts :: cs_userOpts where
  "no_userOpts =
     \<lparr>u_checkaffiliates = None, u_cacheperiod = None, u_checknetblocks = None,
      u_checksubnets = None\<rparr>"

text \<open>
  A second scan with the same module instances: the module that failed for want of an API
  key is set up again, now with a key; the port scanner is set up again with the same
  two ports.
\<close>

definition pd_again :: pd_state where
  "pd_again = pd_setup pd_failed \<lparr>u_api_key = Some ''secret'', u_verify = None\<rparr>"

definition ps_again :: ps_state where
  "ps_again = state_of (ps_setup env_open ps_ready ps_two_fixed)"

chapter \<open>Properties\<close>

section \<open>\<open>targetType\<close> and \<open>modulesProducing\<close>\<close>

lemma provides_loop_mono: "set acc \<subseteq> set (provides_loop prov events m acc)"
proof (induction prov arbitrary: acc)
  case Nil
  then show ?case by simp
next
  case (Cons evtype rest)
  have "set acc \<subseteq> set (if evtype \<in> set events then acc @ [m] else acc)" by auto
  also have "\<dots> \<subseteq> set (provides_loop rest events m (if evtype \<in> set events then acc @ [m] else acc))"
    by (rule Cons.IH)
  finally show ?case by simp
qed

lemma modules_loop_step:
  "modules_loop ((mname, info) # rest) events acc =
     modules_loop rest events
       (case provides info of None \<Rightarrow> acc
        | Some prov \<Rightarrow> if prov = [] then acc else provides_loop prov events mname
               (if ''*'' \<in> set events then acc @ [mname] else acc))"
  by (simp split: option.splits list.splits)

lemma modules_loop_mono: "set acc \<subseteq> set (modules_loop mods events acc)"
proof (induction mods arbitrary: acc)
  case Nil
  then show ?case by simp
next
  case (Cons a rest)
  obtain mname info where a: "a = (mname, info)" by (cases a)
  let ?acc' = "case provides info of None \<Rightarrow> acc
        | Some prov \<Rightarrow> if prov = [] then acc else provides_loop prov events mname
               (if ''*'' \<in> set events then acc @ [mname] else acc)"
  have "set acc \<subseteq> set ?acc'"
  proof (cases "provides info")
    case None
    then show ?thesis by simp
  next
    case (Some prov)
    have "set acc \<subseteq> set (if ''*'' \<in> set events then acc @ [mname] else acc)" by auto
    also have "\<dots> \<subseteq> set (provides_loop prov events mname
        (if ''*'' \<in> set events then acc @ [mname] else acc))"
      by (rule provides_loop_mono)
    finally show ?thesis using Some by simp
  qed
  also have "\<dots> \<subseteq> set (modules_loop rest events ?acc')" by (rule Cons.IH)
  finally show ?case unfolding a modules_loop_step .
qed

lemma modules_loop_star:
  assumes "''*'' \<in> set events"
  shows "(mname, info) \<in> set mods \<Longrightarrow> provides info = Some (t # ts)
     \<Longrightarrow> mname \<in> set (modules_loop mods events acc)"
proof (induction mods arbitrary: acc)
  case Nil
  then show ?case by simp
next
  case (Cons a rest)
  obtain mn inf where a: "a = (mn, inf)" by (cases a)
  let ?acc' = "case provides inf of None \<Rightarrow> acc
        | Some prov \<Rightarrow> if prov = [] then acc else provides_loop prov events mn
               (if ''*'' \<in> set events then acc @ [mn] else acc)"
  show ?case
  proof (cases "(mname, info) = (mn, inf)")
    case True
    then have "?acc' = provides_loop (t # ts) events mn (acc @ [mn])"
      using Cons.prems(2) assms by simp
    moreover have "mn \<in> set (provides_loop (t # ts) events mn (acc @ [mn]))"
      using provides_loop_mono[of "acc @ [mn]" "t # ts" events mn] by auto
    ultimately have "mname \<in> set ?acc'" using True by simp
    then have "mname \<in> set (modules_loop rest events ?acc')"
      using modules_loop_mono by blast
    then show ?thesis unfolding a modules_loop_step .
  next
    case False
    then have "(mname, info) \<in> set rest" using Cons.prems(1) a by auto
    then have "mname \<in> set (modules_loop rest events ?acc')"
      using Cons.IH Cons.prems(2) by blast
    then show ?thesis unfolding a modules_loop_step .
  qed
qed

text \<open>
  C10: whenever the list of event types handed to \<open>modulesProducing\<close> contains \<open>*\<close>, the
  result includes every loaded module whose \<open>provides\<close> is a non-empty list, whether or not
  the module produces one of the named types, and no module name is in the result twice.
  The iteration order \<open>set_order\<close> of the Python set is any rearrangement.
\<close>

theorem modulesProducing_star:
  assumes "''*'' \<in> set events" and "\<forall>xs. mset (set_order xs) = mset xs"
  shows "(\<forall>(mname, info) \<in> set mods. (\<exists>t ts. provides info = Some (t # ts)) \<longrightarrow>
            mname \<in> set (modulesProducing set_order (Some mods) events))
         \<and> distinct (modulesProducing set_order (Some mods) events)"
proof (cases mods)
  case Nil
  then show ?thesis by (simp add: modulesProducing_def)
next
  case (Cons a rest)
  from assms(1) have ne: "events \<noteq> []" by auto
  have eq: "modulesProducing set_order (Some mods) events =
              set_order (remdups (modules_loop mods events []))"
    using ne Cons by (simp add: modulesProducing_def)
  have m: "mset (set_order (remdups (modules_loop mods events []))) =
             mset (remdups (modules_loop mods events []))"
    using assms(2) by blast
  have s: "set (modulesProducing set_order (Some mods) events) = set (modules_loop mods events [])"
    using mset_eq_setD[OF m] eq by simp
  have d: "distinct (modulesProducing set_order (Some mods) events)"
    using mset_eq_imp_distinct_iff[OF m] eq by simp
  show ?thesis using s d modules_loop_star[OF assms(1)] by auto
qed

theorem modulesProducing_star_witness:
  "''*'' \<in> set [''*'', ''IP_ADDRESS''] \<and> (\<forall>xs::string list. mset (rev xs) = mset xs)
   \<and> ''sfp_a'' \<in> set (modulesProducing rev
        (Some [(''sfp_a'', \<lparr>provides = Some [''RAW_RIR_DATA'']\<rparr>),
               (''sfp_b'', \<lparr>provides = None\<rparr>),
               (''sfp_c'', \<lparr>provides = Some [''IP_ADDRESS'', ''IP_ADDRESS'']\<rparr>)])
        [''*'', ''IP_ADDRESS''])
   \<and> distinct (modulesProducing rev
        (Some [(''sfp_a'', \<lparr>provides = Some [''RAW_RIR_DATA'']\<rparr>),
               (''sfp_b'', \<lparr>provides = None\<rparr>),
               (''sfp_c'', \<lparr>provides = Some [''IP_ADDRESS'', ''IP_ADDRESS'']\<rparr>)])
        [''*'', ''IP_ADDRESS''])"
proof -
  have h1: "''*'' \<in> set [''*'', ''IP_ADDRESS'']" by simp
  have h2: "\<forall>xs::string list. mset (rev xs) = mset xs" by simp
  show ?thesis
    using h1 h2 modulesProducing_star[OF h1 h2,
      of "[(''sfp_a'', \<lparr>provides = Some [''RAW_RIR_DATA'']\<rparr>),
               (''sfp_b'', \<lparr>provides = None\<rparr>),
               (''sfp_c'', \<lparr>provides = Some [''IP_ADDRESS'', ''IP_ADDRESS'']\<rparr>)]"]
    by simp
qed

text \<open>
  C7: \<open>targetType\<close> returns \<open>IP_ADDRESS\<close> for \<open>192.168.1.5\<close>, \<open>INTERNET_NAME\<close> for
  \<open>example.com\<close> and \<open>NETBLOCK_OWNER\<close> for \<open>10.0.0.0/8\<close>; the CIDR string is not matched by
  the IP-address rule, which comes first, and is matched by the netblock rule.
\<close>

theorem targetType_examples:
  "targetType ''192.168.1.5'' = Some ''IP_ADDRESS''
   \<and> targetType ''example.com'' = Some ''INTERNET_NAME''
   \<and> targetType ''10.0.0.0/8'' = Some ''NETBLOCK_OWNER''
   \<and> \<not> re_match rx_ip_address ''10.0.0.0/8''
   \<and> re_match rx_netblock_owner ''10.0.0.0/8''"
  by code_simp

lemma targetType_loop_None:
  "\<not> list_ex (\<lambda>rxpair. re_match (fst rxpair) target) rules \<Longrightarrow> targetType_loop rules target = None"
  by (induction rules) auto

text \<open>
  C8, as the code has it: for every target that none of the rules of \<open>regexToType\<close> matches,
  \<open>targetType\<close> returns \<open>None\<close>.
\<close>

theorem targetType_unmatched: "no_rule_matches target \<Longrightarrow> targetType target = None"
  unfolding no_rule_matches_def targetType_def using targetType_loop_None by simp

theorem targetType_unmatched_witness:
  "no_rule_matches ''!!!'' \<and> targetType ''!!!'' = None"
proof -
  have h: "no_rule_matches ''!!!''" by code_simp
  show ?thesis using h targetType_unmatched[OF h] by simp
qed

text \<open>
  C8 as stated fails: no rule matches \<open>!!!\<close>, and the result is \<open>None\<close>, not the string
  \<open>unsupported\<close>.
\<close>

theorem targetType_unsupported_counterexample:
  "no_rule_matches ''!!!'' \<and> targetType ''!!!'' = None
   \<and> targetType ''!!!'' \<noteq> Some ''unsupported''"
  by code_simp

section \<open>Event lineage\<close>

lemma lineage_size: "x \<in> set (lineage e) \<Longrightarrow> size x \<le> size e"
proof (induction e rule: lineage.induct)
  case (1 ty d m src)
  show ?case
  proof (cases src)
    case None
    with 1 show ?thesis by auto
  next
    case (Some p)
    with 1 show ?thesis by fastforce
  qed
qed

lemma lineage_distinct: "distinct (lineage e)"
proof (induction e rule: lineage.induct)
  case (1 ty d m src)
  show ?case
  proof (cases src)
    case None
    then show ?thesis by simp
  next
    case (Some p)
    have "SpiderFootEvent ty d m (Some p) \<notin> set (lineage p)"
    proof
      assume "SpiderFootEvent ty d m (Some p) \<in> set (lineage p)"
      from lineage_size[OF this] show False by simp
    qed
    with 1 Some show ?thesis by simp
  qed
qed

lemma lineage_nonempty: "lineage e \<noteq> []"
  by (cases e) simp

lemma lineage_root: "lineage (SpiderFootEvent ty d m None) = [SpiderFootEvent ty d m None]"
  by simp

lemma lineage_child:
  "lineage (SpiderFootEvent ty d m (Some p)) = SpiderFootEvent ty d m (Some p) # lineage p"
  by simp

lemma construct_cases:
  assumes "construct allowEmpty ty d m src = Inr e"
  shows "(ty = ''ROOT'' \<and> e = SpiderFootEvent ty d m None)
       \<or> (ty \<noteq> ''ROOT'' \<and> (\<exists>p. src = Some p \<and> e = SpiderFootEvent ty d m (Some p)))"
  using assms by (auto simp: construct_def split: if_splits option.splits)

lemma lineage_ok_root: "lineage_ok (SpiderFootEvent ''ROOT'' d m None)"
  by (simp add: lineage_ok_def is_root_def)

lemma lineage_ok_child:
  assumes "lineage_ok p" "ty \<noteq> ''ROOT''"
  shows "lineage_ok (SpiderFootEvent ty d m (Some p))"
  using assms lineage_nonempty[of p]
  by (auto simp: lineage_ok_def is_root_def simp del: lineage.simps simp add: lineage_child)

lemma created_lineage_ok: "created allowEmpty e \<Longrightarrow> lineage_ok e"
proof (induction rule: created.induct)
  case (created_root ty d m e)
  from construct_cases[OF this] show ?case using lineage_ok_root by auto
next
  case (created_child p ty d m e)
  from construct_cases[OF created_child.hyps(2)] show ?case
    using lineage_ok_root lineage_ok_child[OF created_child.IH] by auto
qed

text \<open>
  C1: for every event created during a scan, the chain of \<open>sourceEvent\<close> references ends at
  an event of type \<open>ROOT\<close> without source event, holds exactly one \<open>ROOT\<close> event and no event
  twice, and every event of the chain that is not the root has a source event: the lineage
  is a path of a tree, without cycles.
\<close>

theorem lineage_tree:
  assumes "created allowEmpty e"
  shows "is_root (last (lineage e)) \<and> sourceEvent (last (lineage e)) = None
     \<and> length (filter is_root (lineage e)) = 1
     \<and> distinct (lineage e)
     \<and> (\<forall>x \<in> set (lineage e). \<not> is_root x \<longrightarrow> sourceEvent x \<noteq> None)"
  using created_lineage_ok[OF assms] lineage_distinct[of e] by (simp add: lineage_ok_def)

theorem lineage_tree_witness:
  "created (\<lambda>ty. False) ex_mal
   \<and> lineage ex_mal = [ex_mal, ex_ip, ex_root]
   \<and> is_root (last (lineage ex_mal)) \<and> sourceEvent (last (lineage ex_mal)) = None
   \<and> length (filter is_root (lineage ex_mal)) = 1
   \<and> distinct (lineage ex_mal)
   \<and> \<not> is_root ex_mal \<and> sourceEvent ex_mal \<noteq> None
   \<and> \<not> is_root ex_ip \<and> sourceEvent ex_ip \<noteq> None"
proof -
  have r: "created (\<lambda>ty. False) ex_root"
    by (rule created_root[of _ "''ROOT''" "''example.com''" "''''"])
       (simp add: construct_def ex_root_def)
  have i: "created (\<lambda>ty. False) ex_ip"
    by (rule created_child[OF r, of "''IP_ADDRESS''" "''93.184.216.34''" "''sfp_a''"])
       (simp add: construct_def ex_ip_def)
  have m: "created (\<lambda>ty. False) ex_mal"
    by (rule created_child[OF i, of "''MALICIOUS_IPADDR''" "''listed''" "''sfp_b''"])
       (simp add: construct_def ex_mal_def)
  have l: "lineage ex_mal = [ex_mal, ex_ip, ex_root]"
    by (simp add: ex_mal_def ex_ip_def ex_root_def)
  have n: "\<not> is_root ex_mal \<and> \<not> is_root ex_ip"
    by (simp add: is_root_def ex_mal_def ex_ip_def)
  show ?thesis using m l n lineage_tree[OF m] by simp
qed

section \<open>The sticky error state\<close>

lemma pd_errorState_noop: "pd_errorState st \<Longrightarrow> pd_handleEvent env st ev = (Returned, st, [])"
  by (simp add: pd_handleEvent_def)

lemma ps_errorState_noop: "ps_errorState st \<Longrightarrow> ps_handleEvent env st ev = (Returned, st, [])"
  by (simp add: ps_handleEvent_def)

lemma cs_errorState_noop:
  "cs_errorState st \<Longrightarrow>
     outcome_of (cs_handleEvent env st ev) = Returned
     \<and> state_of (cs_handleEvent env st ev) = st
     \<and> only_logs (effects_of (cs_handleEvent env st ev))"
  by (simp add: cs_handleEvent_def outcome_of_def state_of_def effects_of_def only_logs_def Let_def)

lemma pd_run_errorState: "pd_errorState st \<Longrightarrow> pd_run st calls = st"
  by (induction calls) (auto simp: pd_errorState_noop state_of_def)

lemma ps_run_errorState: "ps_errorState st \<Longrightarrow> ps_run st calls = st"
  by (induction calls) (auto simp: ps_errorState_noop state_of_def)

lemma cs_run_errorState: "cs_errorState st \<Longrightarrow> cs_run st calls = st"
  by (induction calls) (auto simp: cs_errorState_noop)

lemma only_logs_notified: "only_logs effs \<Longrightarrow> notified effs = []"
  unfolding only_logs_def
  by (induction effs rule: notified.induct) auto

text \<open>
  C3: once the \<open>errorState\<close> of \<open>sfp_projectdiscovery\<close>, \<open>sfp_portscan_tcp\<close> or \<open>sfp_cinsscore\<close>
  is set, every later \<open>handleEvent\<close>, after any number of deliveries and for any event,
  returns without raising, leaves the state as it is and notifies no listener; it does
  nothing at all in the first two modules and only writes debug messages in the third.
\<close>

theorem errorState_sticky:
  "(pd_errorState pst \<longrightarrow>
      pd_handleEvent env (pd_run pst calls) ev = (Returned, pst, []))
   \<and> (ps_errorState sst \<longrightarrow>
      ps_handleEvent env (ps_run sst calls) ev = (Returned, sst, []))
   \<and> (cs_errorState cst \<longrightarrow>
      outcome_of (cs_handleEvent env (cs_run cst calls) ev) = Returned
      \<and> state_of (cs_handleEvent env (cs_run cst calls) ev) = cst
      \<and> only_logs (effects_of (cs_handleEvent env (cs_run cst calls) ev))
      \<and> notified (effects_of (cs_handleEvent env (cs_run cst calls) ev)) = [])"
  by (simp add: pd_run_errorState ps_run_errorState cs_run_errorState
                pd_errorState_noop ps_errorState_noop cs_errorState_noop only_logs_notified)

theorem errorState_sticky_witness:
  "pd_errorState pd_failed
   \<and> pd_handleEvent env_chaos (pd_run pd_failed [(env_chaos, ev_domain2)]) ev_domain
       = (Returned, pd_failed, [])
   \<and> ps_errorState ps_failed
   \<and> ps_handleEvent env_chaos (ps_run ps_failed [(env_chaos, ev_domain2)]) ev_domain
       = (Returned, ps_failed, [])
   \<and> cs_errorState cs_failed
   \<and> outcome_of (cs_handleEvent env_chaos (cs_run cs_failed [(env_chaos, ev_domain2)]) ev_domain)
       = Returned
   \<and> notified (effects_of
        (cs_handleEvent env_chaos (cs_run cs_failed [(env_chaos, ev_domain2)]) ev_domain)) = []"
proof -
  have p: "pd_errorState pd_failed"
    by (simp add: pd_failed_def pd_handleEvent_def pd_nokey_def pd_setup_def pd_init_def
                  state_of_def)
  have c: "cs_errorState cs_failed"
    by (simp add: cs_failed_def cs_handleEvent_def cs_init_def cs_kind_def cs_query_def
                  env_404_def env0_def ex_ip_def state_of_def Let_def)
  have "ps_portlist (state_of (ps_setup env0 ps_init ps_two)) = []"
    by (simp add: ps_setup_def ps_init_def ps_two_def ps_update_def env0_def state_of_def
                  startswith_def Let_def)
  moreover have "\<not> ps_errorState (state_of (ps_setup env0 ps_init ps_two))"
    by (simp add: ps_setup_def ps_init_def ps_two_def ps_update_def env0_def state_of_def
                  startswith_def Let_def)
  ultimately have s: "ps_errorState ps_failed"
    by (simp add: ps_failed_def ps_handleEvent_def state_of_def)
  show ?thesis
    using p s c
      errorState_sticky[of pd_failed env_chaos "[(env_chaos, ev_domain2)]" ev_domain
                           ps_failed cs_failed]
    by simp
qed

section \<open>Data seen before\<close>

lemma pd_state_cases:
  "state_of (pd_handleEvent env st ev) = st
   \<or> state_of (pd_handleEvent env st ev) = st\<lparr>pd_errorState := True\<rparr>
   \<or> (\<not> pd_errorState st \<and>
       state_of (pd_handleEvent env st ev) = st\<lparr>pd_results := insert (data ev) (pd_results st)\<rparr>)"
  by (simp add: pd_handleEvent_def state_of_def Let_def
           split: prod.splits json.splits option.splits)

lemma pd_step_seen: "pd_seen (state_of (pd_handleEvent env st ev)) (data ev)"
  by (simp add: pd_handleEvent_def state_of_def Let_def pd_seen_def
           split: prod.splits json.splits option.splits)

lemma pd_step_mono: "pd_seen st d \<Longrightarrow> pd_seen (state_of (pd_handleEvent env st ev)) d"
  using pd_state_cases[of env st ev] by (auto simp: pd_seen_def)

lemma pd_run_mono: "pd_seen st d \<Longrightarrow> pd_seen (pd_run st calls) d"
proof (induction calls arbitrary: st)
  case Nil
  then show ?case by simp
next
  case (Cons c calls)
  obtain env ev where c: "c = (env, ev)" by (cases c)
  show ?case unfolding c using Cons.IH[OF pd_step_mono[OF Cons.prems]] by simp
qed

lemma pd_seen_only_logs:
  "pd_seen st (data ev) \<Longrightarrow> only_logs (effects_of (pd_handleEvent env st ev))"
  by (auto simp: pd_seen_def pd_handleEvent_def effects_of_def only_logs_def Let_def)

lemma cs_query_state:
  "fst (snd (cs_query env st qry tt)) = st \<or> fst (snd (cs_query env st qry tt)) = st\<lparr>cs_errorState := True\<rparr>"
  by (simp add: cs_query_def Let_def split: option.splits prod.splits)

lemma cs_handleEvent_state:
  "state_of (cs_handleEvent env st ev) =
     (if data ev \<in> cs_results st \<or> cs_errorState st then st
      else case cs_kind (cs_opts st) (eventType ev) of
             None \<Rightarrow> st\<lparr>cs_results := insert (data ev) (cs_results st)\<rparr>
           | Some k \<Rightarrow>
               fst (snd (cs_query env (st\<lparr>cs_results := insert (data ev) (cs_results st)\<rparr>)
                           (data ev) (fst k))))"
  by (simp add: cs_handleEvent_def state_of_def Let_def split: prod.splits option.splits)

lemma cs_state_cases:
  "state_of (cs_handleEvent env st ev) = st
   \<or> state_of (cs_handleEvent env st ev) = st\<lparr>cs_results := insert (data ev) (cs_results st)\<rparr>
   \<or> state_of (cs_handleEvent env st ev) =
        st\<lparr>cs_results := insert (data ev) (cs_results st), cs_errorState := True\<rparr>"
proof (cases "data ev \<in> cs_results st \<or> cs_errorState st")
  case True
  then show ?thesis by (simp add: cs_handleEvent_state)
next
  case False
  show ?thesis
  proof (cases "cs_kind (cs_opts st) (eventType ev)")
    case None
    with False show ?thesis by (simp add: cs_handleEvent_state)
  next
    case (Some k)
    from cs_query_state[of env "st\<lparr>cs_results := insert (data ev) (cs_results st)\<rparr>" "data ev" "fst k"]
    show ?thesis using False Some by (auto simp: cs_handleEvent_state)
  qed
qed

lemma cs_step_seen: "cs_seen (state_of (cs_handleEvent env st ev)) (data ev)"
proof (cases "data ev \<in> cs_results st \<or> cs_errorState st")
  case True
  then show ?thesis by (auto simp: cs_handleEvent_state cs_seen_def)
next
  case False
  show ?thesis
  proof (cases "cs_kind (cs_opts st) (eventType ev)")
    case None
    with False show ?thesis by (simp add: cs_handleEvent_state cs_seen_def)
  next
    case (Some k)
    from cs_query_state[of env "st\<lparr>cs_results := insert (data ev) (cs_results st)\<rparr>" "data ev" "fst k"]
    show ?thesis using False Some by (auto simp: cs_handleEvent_state cs_seen_def)
  qed
qed

lemma cs_step_mono: "cs_seen st d \<Longrightarrow> cs_seen (state_of (cs_handleEvent env st ev)) d"
  using cs_state_cases[of env st ev] by (auto simp: cs_seen_def)

lemma cs_run_mono: "cs_seen st d \<Longrightarrow> cs_seen (cs_run st calls) d"
proof (induction calls arbitrary: st)
  case Nil
  then show ?case by simp
next
  case (Cons c calls)
  obtain env ev where c: "c = (env, ev)" by (cases c)
  show ?case unfolding c using Cons.IH[OF cs_step_mono[OF Cons.prems]] by simp
qed

lemma cs_seen_only_logs:
  "cs_seen st (data ev) \<Longrightarrow> only_logs (effects_of (cs_handleEvent env st ev))"
  by (auto simp: cs_seen_def cs_handleEvent_def effects_of_def only_logs_def Let_def)

lemma bc_step_seen: "hashstring env (data ev) \<in> bc_results (state_of (bc_handleEvent env st ev))"
  by (simp add: bc_handleEvent_def state_of_def Let_def)

lemma bc_step_mono: "h \<in> bc_results st \<Longrightarrow> h \<in> bc_results (state_of (bc_handleEvent env st ev))"
  by (simp add: bc_handleEvent_def state_of_def Let_def)

lemma bc_run_mono: "h \<in> bc_results st \<Longrightarrow> h \<in> bc_results (bc_run st calls)"
proof (induction calls arbitrary: st)
  case Nil
  then show ?case by simp
next
  case (Cons c calls)
  obtain env ev where c: "c = (env, ev)" by (cases c)
  show ?case unfolding c using Cons.IH[OF bc_step_mono[OF Cons.prems]] by simp
qed

lemma bc_seen_only_logs:
  "hashstring env (data ev) \<in> bc_results st \<Longrightarrow> effects_of (bc_handleEvent env st ev) = []"
  by (simp add: bc_handleEvent_def effects_of_def Let_def)

text \<open>
  C2, for the modules that keep a seen-set: when \<open>sfp_projectdiscovery\<close>, \<open>sfp_cinsscore\<close> or
  \<open>sfp_bitcoin\<close> has handled an event, then after any further deliveries a call for an event
  with the same data, of whatever type and source, does no work: it queries nothing and
  notifies nobody (the first two write log messages only, the third does nothing).
\<close>

theorem seen_data_no_work:
  assumes "data ev2 = data ev1"
  shows "only_logs (effects_of (pd_handleEvent env2
           (pd_run (state_of (pd_handleEvent env1 pst ev1)) calls) ev2))
       \<and> only_logs (effects_of (cs_handleEvent env2
           (cs_run (state_of (cs_handleEvent env1 cst ev1)) calls) ev2))
       \<and> (hashstring env2 = hashstring env1 \<longrightarrow>
           effects_of (bc_handleEvent env2
             (bc_run (state_of (bc_handleEvent env1 bst ev1)) calls) ev2) = [])"
proof (intro conjI impI)
  have "pd_seen (pd_run (state_of (pd_handleEvent env1 pst ev1)) calls) (data ev2)"
    using pd_run_mono[OF pd_step_seen] assms by simp
  then show "only_logs (effects_of (pd_handleEvent env2
           (pd_run (state_of (pd_handleEvent env1 pst ev1)) calls) ev2))"
    by (rule pd_seen_only_logs)
  have "cs_seen (cs_run (state_of (cs_handleEvent env1 cst ev1)) calls) (data ev2)"
    using cs_run_mono[OF cs_step_seen] assms by simp
  then show "only_logs (effects_of (cs_handleEvent env2
           (cs_run (state_of (cs_handleEvent env1 cst ev1)) calls) ev2))"
    by (rule cs_seen_only_logs)
next
  assume h: "hashstring env2 = hashstring env1"
  have "hashstring env2 (data ev2) \<in> bc_results (bc_run (state_of (bc_handleEvent env1 bst ev1)) calls)"
    using bc_run_mono[OF bc_step_seen] assms h by simp
  then show "effects_of (bc_handleEvent env2
             (bc_run (state_of (bc_handleEvent env1 bst ev1)) calls) ev2) = []"
    by (rule bc_seen_only_logs)
qed

theorem seen_data_no_work_witness:
  "data ev_domain_again = data ev_domain
   \<and> \<not> only_logs (effects_of (pd_handleEvent env_chaos pd_keyed ev_domain))
   \<and> only_logs (effects_of (pd_handleEvent env_chaos
         (pd_run (state_of (pd_handleEvent env_chaos pd_keyed ev_domain)) [(env_chaos, ev_domain2)])
         ev_domain_again))
   \<and> data ev_ip_again = data ex_ip
   \<and> \<not> only_logs (effects_of (cs_handleEvent env_404 cs_init ex_ip))
   \<and> only_logs (effects_of (cs_handleEvent env_chaos
         (cs_run (state_of (cs_handleEvent env_404 cs_init ex_ip)) [(env_chaos, ev_domain2)])
         ev_ip_again))
   \<and> data ev_text2 = data ev_text1
   \<and> effects_of (bc_handleEvent env_chaos
         (bc_run (state_of (bc_handleEvent env_chaos bc_init ev_text1)) [(env_chaos, ev_domain)])
         ev_text2) = []"
proof -
  have d: "data ev_domain_again = data ev_domain"
    by (simp add: ev_domain_again_def ev_domain_def)
  have i: "data ev_ip_again = data ex_ip" by (simp add: ev_ip_again_def ex_ip_def)
  have t: "data ev_text2 = data ev_text1" by (simp add: ev_text1_def ev_text2_def)
  have w1: "\<not> only_logs (effects_of (pd_handleEvent env_chaos pd_keyed ev_domain))"
    by code_simp
  have w2: "\<not> only_logs (effects_of (cs_handleEvent env_404 cs_init ex_ip))"
    by code_simp
  show ?thesis
    using d i t w1 w2
      seen_data_no_work[OF d, where ?env1.0 = env_chaos and ?env2.0 = env_chaos
                        and pst = pd_keyed and calls = "[(env_chaos, ev_domain2)]"]
      seen_data_no_work[OF i, where ?env1.0 = env_404 and ?env2.0 = env_chaos
                        and cst = cs_init and calls = "[(env_chaos, ev_domain2)]"]
      seen_data_no_work[OF t, where ?env1.0 = env_chaos and ?env2.0 = env_chaos
                        and bst = bc_init and calls = "[(env_chaos, ev_domain)]"]
    by simp
qed

text \<open>
  C2 as stated, for every module, fails: \<open>sfp_email\<close> keeps no seen-set, and two events with
  the same data, one after the other, both make it notify its listeners.
\<close>

theorem email_repeats_work_counterexample:
  "data ev_text2 = data ev_text1
   \<and> notified (effects_of (em_handleEvent env_mail () ev_text1))
       = [SpiderFootEvent ''EMAILADDR'' ''bob@example.com'' ''sfp_email'' (Some ev_text1)]
   \<and> notified (effects_of (em_handleEvent env_mail
                  (state_of (em_handleEvent env_mail () ev_text1)) ev_text2))
       = [SpiderFootEvent ''EMAILADDR'' ''bob@example.com'' ''sfp_email'' (Some ev_text2)]
   \<and> \<not> only_logs (effects_of (em_handleEvent env_mail
                  (state_of (em_handleEvent env_mail () ev_text1)) ev_text2))"
  by code_simp

section \<open>Cooperative stop\<close>

lemma after_stop_append:
  "CheckForStop True \<notin> set a \<Longrightarrow> after_stop (a @ b) = after_stop b"
  by (induction a) auto

lemma after_stop_none: "CheckForStop True \<notin> set a \<Longrightarrow> after_stop a = []"
  by (induction a) auto

lemma sendEvent_no_stop: "CheckForStop b \<notin> set (sendEvent env res ev)"
  by (induction env res ev rule: sendEvent.induct) (auto simp: Let_def split: portres.splits)

lemma ps_batch_no_stop: "CheckForStop b \<notin> set (ps_batch env ev ip n portArr)"
  by (simp add: ps_batch_def sendEvent_no_stop)

lemma ps_ports_stop:
  "(fst (ps_ports env mt ev ip n i portArr plist) = None \<longrightarrow>
      after_stop (snd (snd (ps_ports env mt ev ip n i portArr plist))) = [])
   \<and> (fst (ps_ports env mt ev ip n i portArr plist) \<noteq> None \<longrightarrow>
      CheckForStop True \<notin> set (snd (snd (ps_ports env mt ev ip n i portArr plist))))"
proof (induction plist arbitrary: n i portArr)
  case Nil
  then show ?case by simp
next
  case (Cons port rest)
  show ?case
  proof (cases "checkForStop env n")
    case True
    then show ?thesis by simp
  next
    case stop: False
    show ?thesis
    proof (cases "i < mt")
      case True
      obtain r n' effs where
        r: "ps_ports env mt ev ip (Suc n) (i + 1) (portArr @ [port]) rest = (r, n', effs)"
        by (cases "ps_ports env mt ev ip (Suc n) (i + 1) (portArr @ [port]) rest")
      from Cons.IH[of "Suc n" "i + 1" "portArr @ [port]"] r
      have "(r = None \<longrightarrow> after_stop effs = []) \<and> (r \<noteq> None \<longrightarrow> CheckForStop True \<notin> set effs)"
        by simp
      with stop True r show ?thesis by simp
    next
      case False
      obtain r n' effs where
        r: "ps_ports env mt ev ip (Suc n) 1 [port] rest = (r, n', effs)"
        by (cases "ps_ports env mt ev ip (Suc n) 1 [port] rest")
      from Cons.IH[of "Suc n" 1 "[port]"] r
      have "(r = None \<longrightarrow> after_stop effs = []) \<and> (r \<noteq> None \<longrightarrow> CheckForStop True \<notin> set effs)"
        by simp
      with stop False r ps_batch_no_stop[of True env ev ip n portArr]
      show ?thesis by (simp add: after_stop_append)
    qed
  qed
qed

lemma ps_ips_stop: "after_stop (snd (ps_ips env st ev n ips)) = []"
proof (induction ips arbitrary: st n)
  case Nil
  then show ?case by simp
next
  case (Cons ipAddr rest)
  show ?case
  proof (cases "ipAddr \<in> ps_results st")
    case True
    then show ?thesis by simp
  next
    case False
    let ?st1 = "st\<lparr>ps_results := insert ipAddr (ps_results st)\<rparr>"
    obtain r n' effs where
      r: "ps_ports env (maxthreads (ps_opts ?st1)) ev ipAddr n 0 [] (ps_portlist ?st1) = (r, n', effs)"
      by (cases "ps_ports env (maxthreads (ps_opts ?st1)) ev ipAddr n 0 [] (ps_portlist ?st1)")
    from ps_ports_stop[of env "maxthreads (ps_opts ?st1)" ev ipAddr n 0 "[]" "ps_portlist ?st1"] r
    have p: "(r = None \<longrightarrow> after_stop effs = []) \<and> (r \<noteq> None \<longrightarrow> CheckForStop True \<notin> set effs)"
      by simp
    show ?thesis
    proof (cases r)
      case None
      with False r p show ?thesis by (simp add: Let_def)
    next
      case (Some portArr)
      obtain st2 effs2 where r2: "ps_ips env ?st1 ev n' rest = (st2, effs2)"
        by (cases "ps_ips env ?st1 ev n' rest")
      from Cons.IH[of ?st1 n'] r2 have "after_stop effs2 = []" by simp
      with False r p Some r2 ps_batch_no_stop[of True env ev ipAddr n' portArr]
      show ?thesis by (simp add: Let_def after_stop_append)
    qed
  qed
qed

lemma ps_scanIps_no_stop: "CheckForStop b \<notin> set (snd (ps_scanIps env opts ev))"
  by (simp add: ps_scanIps_def Let_def split: option.splits prod.splits)

lemma ps_outcome: "outcome_of (ps_handleEvent env st ev) = Returned"
  by (simp add: ps_handleEvent_def outcome_of_def Let_def split: prod.splits option.splits)

lemma ps_stop: "after_stop (effects_of (ps_handleEvent env st ev)) = []"
proof -
  obtain r effs where s: "ps_scanIps env (ps_opts st) ev = (r, effs)"
    by (cases "ps_scanIps env (ps_opts st) ev")
  have n: "CheckForStop True \<notin> set effs"
    using ps_scanIps_no_stop[of True env "ps_opts st" ev] s by simp
  have i: "\<And>ips st1 effs1. ps_ips env st ev 0 ips = (st1, effs1) \<Longrightarrow> after_stop effs1 = []"
  proof -
    fix ips st1 effs1
    assume "ps_ips env st ev 0 ips = (st1, effs1)"
    with ps_ips_stop[of env st ev 0 ips] show "after_stop effs1 = []" by simp
  qed
  show ?thesis
    using s n i
    by (auto simp: ps_handleEvent_def effects_of_def Let_def after_stop_append after_stop_none
             split: prod.splits option.splits)
qed

lemma pd_loop_stop:
  "after_stop (snd (pd_loop env opts ev n seen subs)) = []
   \<and> (CheckForStop True \<in> set (snd (pd_loop env opts ev n seen subs))
        \<longrightarrow> fst (pd_loop env opts ev n seen subs) = Returned)"
proof (induction subs arbitrary: n seen)
  case Nil
  then show ?case by simp
next
  case (Cons subdomain rest)
  show ?case
  proof (cases "checkForStop env n")
    case True
    then show ?thesis by simp
  next
    case stop: False
    show ?thesis
    proof (cases "hashable subdomain")
      case False
      with stop show ?thesis by simp
    next
      case h: True
      show ?thesis
      proof (cases "py_key subdomain \<in> set seen")
        case True
        obtain out effs where r: "pd_loop env opts ev (Suc n) seen rest = (out, effs)"
          by (cases "pd_loop env opts ev (Suc n) seen rest")
        from Cons.IH[of "Suc n" seen] r
        have "after_stop effs = [] \<and> (CheckForStop True \<in> set effs \<longrightarrow> out = Returned)"
          by simp
        with stop h True r show ?thesis by simp
      next
        case False
        obtain out effs where
          r: "pd_loop env opts ev (Suc n) (py_key subdomain # seen) rest = (out, effs)"
          by (cases "pd_loop env opts ev (Suc n) (py_key subdomain # seen) rest")
        from Cons.IH[of "Suc n" "py_key subdomain # seen"] r
        have "after_stop effs = [] \<and> (CheckForStop True \<in> set effs \<longrightarrow> out = Returned)"
          by simp
        with stop h False r show ?thesis by (simp add: Let_def)
      qed
    qed
  qed
qed

lemma pd_query_no_stop: "CheckForStop b \<notin> set (snd (pd_query env qry))"
  by (simp add: pd_query_def Let_def split: option.splits sum.splits)

lemma pd_stop:
  "after_stop (effects_of (pd_handleEvent env st ev)) = []
   \<and> (CheckForStop True \<in> set (effects_of (pd_handleEvent env st ev))
        \<longrightarrow> outcome_of (pd_handleEvent env st ev) = Returned)"
proof -
  obtain result qeffs where q: "pd_query env (data ev) = (result, qeffs)"
    by (cases "pd_query env (data ev)")
  have nq: "CheckForStop True \<notin> set qeffs"
    using pd_query_no_stop[of True env "data ev"] q by simp
  have loop: "\<And>subs out leffs.
     pd_loop env (pd_opts st) ev 0 [] subs = (out, leffs) \<Longrightarrow>
     after_stop leffs = [] \<and> (CheckForStop True \<in> set leffs \<longrightarrow> out = Returned)"
  proof -
    fix subs out leffs
    assume "pd_loop env (pd_opts st) ev 0 [] subs = (out, leffs)"
    with pd_loop_stop[of env "pd_opts st" ev 0 "[]" subs] show
      "after_stop leffs = [] \<and> (CheckForStop True \<in> set leffs \<longrightarrow> out = Returned)" by simp
  qed
  show ?thesis
    using q nq loop
    by (auto simp: pd_handleEvent_def effects_of_def outcome_of_def Let_def after_stop_append
                   after_stop_none
             split: prod.splits json.splits option.splits)
qed

text \<open>
  C5: in a call of \<open>handleEvent\<close> of \<open>sfp_projectdiscovery\<close> (loop over the subdomains) or
  \<open>sfp_portscan_tcp\<close> (loops over the addresses and, within, over the ports), the poll of
  \<open>checkForStop\<close> that answers true is the last thing the call does: no further iteration
  starts, no port is tried and no listener is notified after it, and the call returns.
\<close>

theorem stop_returns_early:
  "after_stop (effects_of (pd_handleEvent env pst ev)) = []
   \<and> (CheckForStop True \<in> set (effects_of (pd_handleEvent env pst ev))
        \<longrightarrow> outcome_of (pd_handleEvent env pst ev) = Returned)
   \<and> after_stop (effects_of (ps_handleEvent env sst ev)) = []
   \<and> (CheckForStop True \<in> set (effects_of (ps_handleEvent env sst ev))
        \<longrightarrow> outcome_of (ps_handleEvent env sst ev) = Returned)"
  using pd_stop[of env pst ev] ps_stop[of env sst ev] ps_outcome[of env sst ev] by simp

lemma pd_abort_run:
  "effects_of (pd_handleEvent env_chaos pd_keyed ev_domain) =
     [Debug ''Received event, DOMAIN_NAME, from sfp_dnsresolve'',
      FetchUrl ''https://dns.projectdiscovery.io/dns/example.com/subdomains'',
      Notify (SpiderFootEvent ''RAW_RIR_DATA'' ''{}'' ''sfp_projectdiscovery'' (Some ev_domain)),
      CheckForStop False,
      ResolveHost ''www.example.com'',
      Notify (SpiderFootEvent ''INTERNET_NAME'' ''www.example.com'' ''sfp_projectdiscovery''
                (Some ev_domain)),
      CheckForStop True]"
  by code_simp

lemma ps_abort_run:
  "effects_of (ps_handleEvent env_abort ps_ready ev_netblock) =
     [Debug ''Received event, NETBLOCK_OWNER, from sfp_ripe'',
      CheckForStop False, CheckForStop False,
      TryPorts ''10.0.0.1'' [80, 443],
      Info ''TCP Port 10.0.0.1:80 found to be OPEN.'',
      Notify (SpiderFootEvent ''TCP_PORT_OPEN'' ''10.0.0.1:80'' ''sfp_portscan_tcp''
                (Some ev_netblock)),
      Info ''TCP Port 10.0.0.1:443 found to be OPEN.'',
      Notify (SpiderFootEvent ''TCP_PORT_OPEN'' ''10.0.0.1:443'' ''sfp_portscan_tcp''
                (Some ev_netblock)),
      CheckForStop True]"
  by code_simp

theorem stop_returns_early_witness:
  "CheckForStop True \<in> set (effects_of (pd_handleEvent env_chaos pd_keyed ev_domain))
   \<and> after_stop (effects_of (pd_handleEvent env_chaos pd_keyed ev_domain)) = []
   \<and> outcome_of (pd_handleEvent env_chaos pd_keyed ev_domain) = Returned
   \<and> map data (notified (effects_of (pd_handleEvent env_chaos pd_keyed ev_domain)))
       = [''{}'', ''www.example.com'']
   \<and> CheckForStop True \<in> set (effects_of (ps_handleEvent env_abort ps_ready ev_netblock))
   \<and> after_stop (effects_of (ps_handleEvent env_abort ps_ready ev_netblock)) = []
   \<and> outcome_of (ps_handleEvent env_abort ps_ready ev_netblock) = Returned
   \<and> map data (notified (effects_of (ps_handleEvent env_abort ps_ready ev_netblock)))
       = [''10.0.0.1:80'', ''10.0.0.1:443'']"
proof -
  have p: "CheckForStop True \<in> set (effects_of (pd_handleEvent env_chaos pd_keyed ev_domain))"
    by (simp add: pd_abort_run)
  have s: "CheckForStop True \<in> set (effects_of (ps_handleEvent env_abort ps_ready ev_netblock))"
    by (simp add: ps_abort_run)
  have dp: "map data (notified (effects_of (pd_handleEvent env_chaos pd_keyed ev_domain)))
       = [''{}'', ''www.example.com'']"
    by (simp add: pd_abort_run)
  have ds: "map data (notified (effects_of (ps_handleEvent env_abort ps_ready ev_netblock)))
       = [''10.0.0.1:80'', ''10.0.0.1:443'']"
    by (simp add: ps_abort_run)
  show ?thesis
    using p s dp ds stop_returns_early[of env_chaos pd_keyed ev_domain ps_ready]
          stop_returns_early[of env_abort pd_keyed ev_netblock ps_ready]
    by simp
qed

section \<open>The order of the events of a port scan\<close>














section \<open>Failures of the source\<close>

lemma pd_query_failed:
  "pd_lookup_failed env qry \<Longrightarrow>
     fst (pd_query env qry) = JNull
     \<and> list_ex is_report (snd (pd_query env qry))
     \<and> notified (snd (pd_query env qry)) = []"
  by (auto simp: pd_lookup_failed_def pd_query_def Let_def split: option.splits sum.splits)

lemma cs_query_failed:
  "cs_fetch_failed env \<Longrightarrow>
     cs_query env st qry tt =
       (None, st\<lparr>cs_errorState := True\<rparr>,
        [CacheGet ''sfmal__cinsscore'', FetchUrl cs_url, Error (''Unable to fetch '' @ cs_url)])"
  by (auto simp: cs_fetch_failed_def cs_query_def Let_def split: option.splits)

text \<open>
  C9, as the code has it: when the lookup of \<open>sfp_projectdiscovery\<close> fails (no content, or
  content that is not JSON), \<open>handleEvent\<close> reports it, notifies no listener, returns, and
  leaves \<open>errorState\<close> unset; when \<open>sfp_cinsscore\<close> cannot fetch its list (another code than
  200, or no content), \<open>handleEvent\<close> reports it, notifies no listener, returns, and sets
  \<open>errorState\<close>.
\<close>

theorem source_failure_no_event:
  "(\<not> pd_errorState pst \<and> api_key (pd_opts pst) \<noteq> '''' \<and> data ev \<notin> pd_results pst
      \<and> eventType ev = ''DOMAIN_NAME'' \<and> pd_lookup_failed env (data ev)
    \<longrightarrow> outcome_of (pd_handleEvent env pst ev) = Returned
        \<and> notified (effects_of (pd_handleEvent env pst ev)) = []
        \<and> list_ex is_report (effects_of (pd_handleEvent env pst ev))
        \<and> \<not> pd_errorState (state_of (pd_handleEvent env pst ev)))
   \<and> (\<not> cs_errorState cst \<and> data ev' \<notin> cs_results cst
      \<and> cs_kind (cs_opts cst) (eventType ev') \<noteq> None \<and> cs_fetch_failed env'
    \<longrightarrow> outcome_of (cs_handleEvent env' cst ev') = Returned
        \<and> notified (effects_of (cs_handleEvent env' cst ev')) = []
        \<and> list_ex is_report (effects_of (cs_handleEvent env' cst ev'))
        \<and> cs_errorState (state_of (cs_handleEvent env' cst ev')))"
proof (intro conjI impI)
  assume a: "\<not> pd_errorState pst \<and> api_key (pd_opts pst) \<noteq> '''' \<and> data ev \<notin> pd_results pst
      \<and> eventType ev = ''DOMAIN_NAME'' \<and> pd_lookup_failed env (data ev)"
  obtain result qeffs where q: "pd_query env (data ev) = (result, qeffs)"
    by (cases "pd_query env (data ev)")
  from a pd_query_failed[of env "data ev"] q
  have r: "result = JNull" "list_ex is_report qeffs" "notified qeffs = []" by simp_all
  have e: "pd_handleEvent env pst ev =
             (Returned, pst\<lparr>pd_results := insert (data ev) (pd_results pst)\<rparr>,
              Debug (''Received event, '' @ eventType ev @ '', from '' @ module ev) # qeffs)"
    using a q r(1) by (simp add: pd_handleEvent_def Let_def)
  show "outcome_of (pd_handleEvent env pst ev) = Returned" by (simp add: e outcome_of_def)
  show "notified (effects_of (pd_handleEvent env pst ev)) = []"
    by (simp add: e effects_of_def r(3))
  show "list_ex is_report (effects_of (pd_handleEvent env pst ev))"
    by (simp add: e effects_of_def r(2))
  show "\<not> pd_errorState (state_of (pd_handleEvent env pst ev))"
    using a by (simp add: e state_of_def)
next
  assume a: "\<not> cs_errorState cst \<and> data ev' \<notin> cs_results cst
      \<and> cs_kind (cs_opts cst) (eventType ev') \<noteq> None \<and> cs_fetch_failed env'"
  then obtain tt et where k: "cs_kind (cs_opts cst) (eventType ev') = Some (tt, et)" by auto
  have e: "cs_handleEvent env' cst ev' =
             (Returned, cst\<lparr>cs_results := insert (data ev') (cs_results cst), cs_errorState := True\<rparr>,
              [Debug (''Received event, '' @ eventType ev' @ '', from '' @ module ev'),
               Debug (''Checking maliciousness of '' @ data ev' @ '' with cinsscore.com''),
               CacheGet ''sfmal__cinsscore'', FetchUrl cs_url,
               Error (''Unable to fetch '' @ cs_url)])"
    using a k by (simp add: cs_handleEvent_def Let_def cs_query_failed)
  show "outcome_of (cs_handleEvent env' cst ev') = Returned" by (simp add: e outcome_of_def)
  show "notified (effects_of (cs_handleEvent env' cst ev')) = []" by (simp add: e effects_of_def)
  show "list_ex is_report (effects_of (cs_handleEvent env' cst ev'))"
    by (simp add: e effects_of_def)
  show "cs_errorState (state_of (cs_handleEvent env' cst ev'))" by (simp add: e state_of_def)
qed

lemma pd_keyed_fresh:
  "\<not> pd_errorState pd_keyed \<and> api_key (pd_opts pd_keyed) \<noteq> '''' \<and> data ev_domain \<notin> pd_results pd_keyed
   \<and> eventType ev_domain = ''DOMAIN_NAME'' \<and> pd_lookup_failed env0 (data ev_domain)"
  by (simp add: pd_keyed_def pd_setup_def pd_init_def ev_domain_def pd_lookup_failed_def env0_def)

lemma cs_fresh:
  "\<not> cs_errorState (cs_setup cs_init no_userOpts)
   \<and> data ex_ip \<notin> cs_results (cs_setup cs_init no_userOpts)
   \<and> cs_kind (cs_opts (cs_setup cs_init no_userOpts)) (eventType ex_ip) \<noteq> None
   \<and> cs_fetch_failed env_404"
  by (simp add: cs_setup_def cs_init_def no_userOpts_def ex_ip_def cs_kind_def cs_fetch_failed_def
                env_404_def env0_def)

theorem source_failure_no_event_witness:
  "(\<not> pd_errorState pd_keyed \<and> api_key (pd_opts pd_keyed) \<noteq> '''' \<and> data ev_domain \<notin> pd_results pd_keyed
      \<and> eventType ev_domain = ''DOMAIN_NAME'' \<and> pd_lookup_failed env0 (data ev_domain))
   \<and> outcome_of (pd_handleEvent env0 pd_keyed ev_domain) = Returned
   \<and> notified (effects_of (pd_handleEvent env0 pd_keyed ev_domain)) = []
   \<and> \<not> pd_errorState (state_of (pd_handleEvent env0 pd_keyed ev_domain))
   \<and> (\<not> cs_errorState (cs_setup cs_init no_userOpts)
      \<and> data ex_ip \<notin> cs_results (cs_setup cs_init no_userOpts)
      \<and> cs_kind (cs_opts (cs_setup cs_init no_userOpts)) (eventType ex_ip) \<noteq> None
      \<and> cs_fetch_failed env_404)
   \<and> outcome_of (cs_handleEvent env_404 (cs_setup cs_init no_userOpts) ex_ip) = Returned
   \<and> notified (effects_of (cs_handleEvent env_404 (cs_setup cs_init no_userOpts) ex_ip)) = []
   \<and> cs_errorState (state_of (cs_handleEvent env_404 (cs_setup cs_init no_userOpts) ex_ip))"
  using pd_keyed_fresh cs_fresh
        source_failure_no_event[of pd_keyed ev_domain env0 "cs_setup cs_init no_userOpts" ex_ip env_404]
  by simp

text \<open>
  C9 as stated fails: a fetch of the list of cinsscore.com that comes back with code 404 is
  reported and no listener is notified, but the module is left with \<open>errorState\<close> set.
\<close>

theorem fetch_failure_sets_errorState_counterexample:
  "\<not> cs_errorState (cs_setup cs_init no_userOpts)
   \<and> code (fetchUrl env_404 cs_url) = Some ''404''
   \<and> outcome_of (cs_handleEvent env_404 (cs_setup cs_init no_userOpts) ex_ip) = Returned
   \<and> notified (effects_of (cs_handleEvent env_404 (cs_setup cs_init no_userOpts) ex_ip)) = []
   \<and> cs_errorState (state_of (cs_handleEvent env_404 (cs_setup cs_init no_userOpts) ex_ip))"
  by code_simp

section \<open>State that \<open>setup\<close> leaves behind\<close>

lemma pd_setup_errorState: "pd_errorState (pd_setup st userOpts) = pd_errorState st"
  by (simp add: pd_setup_def)

lemma ps_setup_errorState:
  "ps_errorState (state_of (ps_setup env st userOpts)) = ps_errorState st"
  by (simp add: ps_setup_def state_of_def Let_def split: list.splits option.splits prod.splits)

lemma cs_setup_resets:
  "\<not> cs_errorState (cs_setup st userOpts) \<and> cs_results (cs_setup st userOpts) = {}"
  by (simp add: cs_setup_def)

text \<open>
  C4 at a failing input. \<open>setup\<close> of \<open>sfp_projectdiscovery\<close> empties \<open>results\<close> but leaves
  \<open>errorState\<close> as it was: set up again with an API key, the module that failed in the scan
  before still returns at once. \<open>setup\<close> of \<open>sfp_portscan_tcp\<close> appends to \<open>portlist\<close>: set up
  again with the same two ports, the list holds each port twice. \<open>setup\<close> of
  \<open>sfp_cinsscore\<close> does reset \<open>errorState\<close>.
\<close>

theorem setup_leaks_state:
  "pd_errorState pd_failed
   \<and> api_key (pd_opts pd_again) = ''secret'' \<and> pd_results pd_again = {}
   \<and> pd_errorState pd_again
   \<and> pd_handleEvent env_chaos pd_again ev_domain = (Returned, pd_again, [])
   \<and> ps_portlist ps_ready = [80, 443]
   \<and> ps_portlist ps_again = [80, 443, 80, 443]
   \<and> cs_errorState cs_failed
   \<and> \<not> cs_errorState (cs_setup cs_failed no_userOpts)"
proof -
  have p: "pd_errorState pd_failed"
    by (simp add: pd_failed_def pd_handleEvent_def pd_nokey_def pd_setup_def pd_init_def
                  state_of_def)
  then have pa: "pd_errorState pd_again" by (simp add: pd_again_def pd_setup_errorState)
  have po: "api_key (pd_opts pd_again) = ''secret'' \<and> pd_results pd_again = {}"
    by (simp add: pd_again_def pd_setup_def)
  have ph: "pd_handleEvent env_chaos pd_again ev_domain = (Returned, pd_again, [])"
    using pa by (simp add: pd_handleEvent_def)
  have s1: "ps_portlist ps_ready = [80, 443]" by code_simp
  have s2: "ps_portlist ps_again = [80, 443, 80, 443]" by code_simp
  have c: "cs_errorState cs_failed"
    by (simp add: cs_failed_def cs_handleEvent_def cs_init_def cs_kind_def cs_query_def
                  env_404_def env0_def ex_ip_def state_of_def Let_def)
  show ?thesis using p pa po ph s1 s2 c cs_setup_resets by simp
qed

end
